theory Spec2Isabelle
  imports Complex_Main "HOL-Library.Sublist" "HOL-Library.Multiset"
begin

section \<open>Python values used by the job application agent\<close>

text \<open>
  Strings are character lists over ASCII. Scores are Python floats obtained by dividing
  two small non-negative integers; they are modelled by the exact quotient in \<open>rat\<close>
  (the constants 0.5, 0.0 and 1.0 of the source are exact in both readings), and a
  comparison of a score with a threshold is the comparison of the two rationals.
  A missing dictionary key is the value \<open>None\<close> of an optional field; reading it with
  \<^verbatim>\<open>[...]\<close> raises \<^verbatim>\<open>KeyError\<close>, which is a value of the result.
\<close>

subsection \<open>String operations\<close>

text \<open>\<^verbatim>\<open>str.lower()\<close>: the letters A to Z are mapped to a to z.\<close>

definition lower_char :: "char \<Rightarrow> char" where
  "lower_char c =
     (let n = (of_char c :: nat) in if 65 \<le> n \<and> n \<le> 90 then char_of (n + 32) else c)"

definition lower :: "string \<Rightarrow> string" where
  "lower s = map lower_char s"

text \<open>\<^verbatim>\<open>str.isspace()\<close> on one ASCII character: tab, line feed, vertical tab, form feed,
  carriage return, the four separators 0x1C to 0x1F, and the blank.\<close>

definition is_space :: "char \<Rightarrow> bool" where
  "is_space c = (let n = (of_char c :: nat) in (9 \<le> n \<and> n \<le> 13) \<or> (28 \<le> n \<and> n \<le> 32))"

text \<open>\<^verbatim>\<open>str.split()\<close> without arguments: the maximal runs of non-space characters.
  The first argument is the word read so far.\<close>

fun split_acc :: "string \<Rightarrow> string \<Rightarrow> string list" where
  "split_acc cur [] = (if cur = [] then [] else [cur])"
| "split_acc cur (c # cs) =
     (if is_space c then (if cur = [] then split_acc [] cs else cur # split_acc [] cs)
      else split_acc (cur @ [c]) cs)"

definition split :: "string \<Rightarrow> string list" where
  "split s = split_acc [] s"

text \<open>\<^verbatim>\<open>str.strip()\<close> without arguments.\<close>

definition strip :: "string \<Rightarrow> string" where
  "strip s = rev (dropWhile is_space (rev (dropWhile is_space s)))"

text \<open>\<^verbatim>\<open>sep.join(xs)\<close>.\<close>

fun join :: "string \<Rightarrow> string list \<Rightarrow> string" where
  "join sep [] = []"
| "join sep [x] = x"
| "join sep (x # y # ys) = x @ sep @ join sep (y # ys)"

text \<open>\<^verbatim>\<open>a in b\<close> on strings: \<open>a\<close> occurs in \<open>b\<close> as a contiguous block.\<close>

definition str_in :: "string \<Rightarrow> string \<Rightarrow> bool" where
  "str_in a b = sublist a b"

text \<open>\<^verbatim>\<open>str(n)\<close> for an integer, as an f-string formats it.\<close>

definition digit :: "nat \<Rightarrow> char" where
  "digit d = char_of (48 + d)"

function str_nat :: "nat \<Rightarrow> string" where
  "str_nat n = (if n < 10 then [digit n] else str_nat (n div 10) @ [digit (n mod 10)])"
  by pat_completeness auto
termination
  by (relation "measure (\<lambda>n. n)") auto

declare str_nat.simps [simp del]

definition str_int :: "int \<Rightarrow> string" where
  "str_int i = (if i < 0 then CHR ''-'' # str_nat (nat (- i)) else str_nat (nat i))"

text \<open>\<^verbatim>\<open>xs[:n]\<close>: a negative bound counts from the end.\<close>

definition slice_to :: "'a list \<Rightarrow> int \<Rightarrow> 'a list" where
  "slice_to xs n = (if 0 \<le> n then take (nat n) xs else take (length xs - nat (- n)) xs)"

text \<open>\<^verbatim>\<open>d.get(key, default)\<close>, a missing key being \<open>None\<close>.\<close>

definition dict_get :: "'a option \<Rightarrow> 'a \<Rightarrow> 'a" where
  "dict_get v dflt = (case v of None \<Rightarrow> dflt | Some x \<Rightarrow> x)"

datatype error = KeyError string

text \<open>\<^verbatim>\<open>d[key]\<close>: raises \<open>KeyError\<close> on a missing key.\<close>

definition dict_item :: "string \<Rightarrow> 'a option \<Rightarrow> error + 'a" where
  "dict_item key v = (case v of None \<Rightarrow> Inl (KeyError key) | Some x \<Rightarrow> Inr x)"

text \<open>Sequencing: an error ends the computation, a value is passed on.\<close>

definition raise_or :: "error + 'a \<Rightarrow> ('a \<Rightarrow> error + 'b) \<Rightarrow> error + 'b" where
  "raise_or m f = (case m of Inl e \<Rightarrow> Inl e | Inr x \<Rightarrow> f x)"

subsection \<open>Job dictionaries\<close>

text \<open>A job dictionary, by the keys the program reads; \<open>None\<close> is a missing key.\<close>

record job =
  job_id :: "string option"
  title :: "string option"
  company :: "string option"
  location :: "string option"
  description :: "string option"
  requirements :: "string list option"
  experience_required :: "int option"
  salary_range :: "string option"
  posted_date :: "string option"
  job_type :: "string option"

text \<open>The empty dictionary \<^verbatim>\<open>{}\<close>.\<close>

definition empty_job :: job where
  "empty_job = \<lparr> job_id = None, title = None, company = None, location = None,
     description = None, requirements = None, experience_required = None,
     salary_range = None, posted_date = None, job_type = None \<rparr>"

section \<open>classifier.py\<close>

text \<open>\<^verbatim>\<open>JobRelevanceClassifier.classify_job\<close>. The method reads nothing of \<open>self\<close>.\<close>

definition classify_job :: "job \<Rightarrow> string list \<Rightarrow> rat" where
  "classify_job job resume_skills =
     (let job_skills = dict_get (requirements job) [];
          job_experience = dict_get (experience_required job) 0
      in
      if job_skills = [] then 1 / 2
      else
        let resume_set = set (map lower resume_skills);
            job_set = set (map lower job_skills);
            matching_skills = card (resume_set \<inter> job_set);
            total_required = card job_set;
            skill_score = (if total_required > 0
                           then of_nat matching_skills / of_nat total_required else 0)
        in min skill_score 1)"

text \<open>\<^verbatim>\<open>JobRelevanceClassifier.batch_classify\<close>.\<close>

definition batch_classify :: "job list \<Rightarrow> string list \<Rightarrow> rat list" where
  "batch_classify jobs resume_skills = map (\<lambda>job. classify_job job resume_skills) jobs"

text \<open>\<^verbatim>\<open>JobRelevanceClassifier.filter_relevant_jobs\<close>: the loop keeps the jobs that reach
  the threshold; \<^verbatim>\<open>sort(key=..., reverse=True)\<close> is a stable sort by descending score.\<close>

fun relevant_loop :: "job list \<Rightarrow> string list \<Rightarrow> rat \<Rightarrow> (job \<times> rat) list" where
  "relevant_loop [] resume_skills threshold = []"
| "relevant_loop (job # jobs) resume_skills threshold =
     (let score = classify_job job resume_skills in
      if score \<ge> threshold then (job, score) # relevant_loop jobs resume_skills threshold
      else relevant_loop jobs resume_skills threshold)"

definition filter_relevant_jobs :: "job list \<Rightarrow> string list \<Rightarrow> rat \<Rightarrow> (job \<times> rat) list" where
  "filter_relevant_jobs jobs resume_skills threshold =
     sort_key (\<lambda>x. - snd x) (relevant_loop jobs resume_skills threshold)"

section \<open>utils.py\<close>

text \<open>\<^verbatim>\<open>UtilityFunctions.calculate_skill_match\<close>.\<close>

definition calculate_skill_match :: "string list \<Rightarrow> string list \<Rightarrow> rat" where
  "calculate_skill_match resume_skills job_skills =
     (if job_skills = [] then 1
      else if resume_skills = [] then 0
      else
        let resume_set = set (map lower resume_skills);
            job_set = set (map lower job_skills);
            matching = card (resume_set \<inter> job_set);
            total = card job_set
        in if total > 0 then of_nat matching / of_nat total else 0)"

section \<open>scraper.py\<close>

text \<open>\<^verbatim>\<open>JobScraper\<close>: the object holds the list \<^verbatim>\<open>sample_jobs\<close>.\<close>

record scraper =
  sample_jobs :: "job list"

text \<open>The eight literal dictionaries of \<^verbatim>\<open>JobScraper.__init__\<close>.\<close>

definition job_001 :: job where
  "job_001 = \<lparr>
     job_id = Some ''job_001'',
     title = Some ''Senior Python Developer'',
     company = Some ''Tech Giants Inc'',
     location = Some ''Remote'',
     description = Some ''We are looking for an experienced Python developer with 5+ years expertise in Django, FastAPI, and cloud technologies.'',
     requirements = Some [''Python'', ''Django'', ''FastAPI'', ''Docker'', ''AWS'', ''PostgreSQL'', ''REST API''],
     experience_required = Some 5,
     salary_range = Some ''$120k - $160k'',
     posted_date = Some ''2025-11-01'',
     job_type = Some ''Full-time'' \<rparr>"

definition job_002 :: job where
  "job_002 = \<lparr>
     job_id = Some ''job_002'',
     title = Some ''React Frontend Developer'',
     company = Some ''Innovation Labs'',
     location = Some ''San Francisco, CA'',
     description = Some ''Build amazing web applications with React, TypeScript, and modern frontend tools.'',
     requirements = Some [''React'', ''TypeScript'', ''JavaScript'', ''CSS'', ''REST API'', ''Git''],
     experience_required = Some 3,
     salary_range = Some ''$100k - $140k'',
     posted_date = Some ''2025-11-03'',
     job_type = Some ''Full-time'' \<rparr>"

definition job_003 :: job where
  "job_003 = \<lparr>
     job_id = Some ''job_003'',
     title = Some ''Machine Learning Engineer'',
     company = Some ''AI Solutions Corp'',
     location = Some ''Remote'',
     description = Some ''Develop and deploy machine learning models using TensorFlow, PyTorch, and cloud infrastructure.'',
     requirements = Some [''Python'', ''Machine Learning'', ''TensorFlow'', ''PyTorch'', ''SQL'', ''AWS'', ''Docker''],
     experience_required = Some 4,
     salary_range = Some ''$130k - $180k'',
     posted_date = Some ''2025-11-05'',
     job_type = Some ''Full-time'' \<rparr>"

definition job_004 :: job where
  "job_004 = \<lparr>
     job_id = Some ''job_004'',
     title = Some ''DevOps Engineer'',
     company = Some ''Cloud Systems Ltd'',
     location = Some ''New York, NY'',
     description = Some ''Manage cloud infrastructure, CI/CD pipelines, and deployment automation.'',
     requirements = Some [''Docker'', ''Kubernetes'', ''AWS'', ''Jenkins'', ''Terraform'', ''Linux'', ''Python''],
     experience_required = Some 3,
     salary_range = Some ''$110k - $150k'',
     posted_date = Some ''2025-11-06'',
     job_type = Some ''Full-time'' \<rparr>"

definition job_005 :: job where
  "job_005 = \<lparr>
     job_id = Some ''job_005'',
     title = Some ''Full Stack Developer'',
     company = Some ''StartUp Co'',
     location = Some ''Austin, TX'',
     description = Some ''Build end-to-end web applications using modern tech stack. Startup environment.'',
     requirements = Some [''React'', ''Node.js'', ''MongoDB'', ''REST API'', ''JavaScript'', ''Docker''],
     experience_required = Some 2,
     salary_range = Some ''$90k - $130k'',
     posted_date = Some ''2025-11-07'',
     job_type = Some ''Full-time'' \<rparr>"

definition job_006 :: job where
  "job_006 = \<lparr>
     job_id = Some ''job_006'',
     title = Some ''Data Engineer'',
     company = Some ''Data Corp'',
     location = Some ''Seattle, WA'',
     description = Some ''Build data pipelines and infrastructure for analytics at scale.'',
     requirements = Some [''Python'', ''SQL'', ''Spark'', ''Kafka'', ''AWS'', ''Airflow'', ''ETL''],
     experience_required = Some 4,
     salary_range = Some ''$120k - $160k'',
     posted_date = Some ''2025-11-08'',
     job_type = Some ''Full-time'' \<rparr>"

definition job_007 :: job where
  "job_007 = \<lparr>
     job_id = Some ''job_007'',
     title = Some ''Backend Engineer'',
     company = Some ''Microservices Inc'',
     location = Some ''Remote'',
     description = Some ''Design and implement scalable microservices architecture.'',
     requirements = Some [''Java'', ''Spring'', ''Microservices'', ''Kubernetes'', ''REST API'', ''PostgreSQL''],
     experience_required = Some 5,
     salary_range = Some ''$125k - $170k'',
     posted_date = Some ''2025-11-09'',
     job_type = Some ''Full-time'' \<rparr>"

definition job_008 :: job where
  "job_008 = \<lparr>
     job_id = Some ''job_008'',
     title = Some ''Cloud Architect'',
     company = Some ''Enterprise Tech'',
     location = Some ''Boston, MA'',
     description = Some ''Design cloud-native solutions and lead architecture decisions.'',
     requirements = Some [''AWS'', ''Azure'', ''Kubernetes'', ''Terraform'', ''Python'', ''Microservices''],
     experience_required = Some 7,
     salary_range = Some ''$150k - $200k'',
     posted_date = Some ''2025-11-10'',
     job_type = Some ''Full-time'' \<rparr>"

definition JobScraper_init :: scraper where
  "JobScraper_init = \<lparr> sample_jobs =
     [job_001, job_002, job_003, job_004, job_005, job_006, job_007, job_008] \<rparr>"

text \<open>The searchable text of a job:
  \<^verbatim>\<open>f"{job['title']} {job['description']} {' '.join(job['requirements'])}".lower()\<close>.\<close>

definition job_text :: "job \<Rightarrow> error + string" where
  "job_text job =
     (case dict_item ''title'' (title job) of Inl e \<Rightarrow> Inl e
      | Inr t \<Rightarrow>
     (case dict_item ''description'' (description job) of Inl e \<Rightarrow> Inl e
      | Inr d \<Rightarrow>
     (case dict_item ''requirements'' (requirements job) of Inl e \<Rightarrow> Inl e
      | Inr r \<Rightarrow> Inr (lower (t @ '' '' @ d @ '' '' @ join '' '' r)))))"

text \<open>The loop of \<^verbatim>\<open>JobScraper.search_jobs\<close> over the remaining jobs; the last argument
  is \<^verbatim>\<open>matched_jobs\<close>. A \<^verbatim>\<open>continue\<close> goes on with the rest and the list unchanged.
  \<^verbatim>\<open>job.copy()\<close> of a dictionary value is the same value.\<close>

fun search_loop :: "string list \<Rightarrow> string \<Rightarrow> job list \<Rightarrow> job list \<Rightarrow> error + job list" where
  "search_loop keyword_list loc [] matched_jobs = Inr matched_jobs"
| "search_loop keyword_list loc (job # rest) matched_jobs =
     (case job_text job of Inl e \<Rightarrow> Inl e
      | Inr text \<Rightarrow>
          if keyword_list \<noteq> [] \<and> \<not> list_ex (\<lambda>kw. str_in kw text) keyword_list
          then search_loop keyword_list loc rest matched_jobs
          else if loc \<noteq> []
          then (case dict_item ''location'' (location job) of Inl e \<Rightarrow> Inl e
                | Inr l \<Rightarrow>
                    if \<not> str_in (lower loc) (lower l)
                    then search_loop keyword_list loc rest matched_jobs
                    else search_loop keyword_list loc rest (matched_jobs @ [job]))
          else search_loop keyword_list loc rest (matched_jobs @ [job]))"

text \<open>\<^verbatim>\<open>JobScraper.search_jobs\<close>.\<close>

definition search_jobs :: "scraper \<Rightarrow> string \<Rightarrow> string \<Rightarrow> int \<Rightarrow> error + job list" where
  "search_jobs self keywords loc limit =
     (let keyword_list = (if keywords \<noteq> [] then split (lower keywords) else []) in
      case search_loop keyword_list loc (sample_jobs self) [] of Inl e \<Rightarrow> Inl e
      | Inr matched_jobs \<Rightarrow> Inr (slice_to matched_jobs limit))"

text \<open>\<^verbatim>\<open>JobScraper.get_job_by_id\<close>.\<close>

fun get_job_by_id_loop :: "job list \<Rightarrow> string \<Rightarrow> error + job option" where
  "get_job_by_id_loop [] jid = Inr None"
| "get_job_by_id_loop (job # rest) jid =
     (case dict_item ''id'' (job_id job) of Inl e \<Rightarrow> Inl e
      | Inr i \<Rightarrow> if i = jid then Inr (Some job) else get_job_by_id_loop rest jid)"

definition get_job_by_id :: "scraper \<Rightarrow> string \<Rightarrow> error + job option" where
  "get_job_by_id self jid = get_job_by_id_loop (sample_jobs self) jid"

text \<open>\<^verbatim>\<open>JobScraper.get_all_jobs\<close>, \<^verbatim>\<open>get_job_count\<close> and \<^verbatim>\<open>add_sample_job\<close>.\<close>

definition get_all_jobs :: "scraper \<Rightarrow> job list" where
  "get_all_jobs self = map (\<lambda>job. job) (sample_jobs self)"

definition get_job_count :: "scraper \<Rightarrow> nat" where
  "get_job_count self = length (sample_jobs self)"

definition add_sample_job :: "scraper \<Rightarrow> job \<Rightarrow> scraper" where
  "add_sample_job self job = self\<lparr> sample_jobs := sample_jobs self @ [job] \<rparr>"

subsection \<open>The scraper with its dictionary objects in a store\<close>

text \<open>
  The job dictionaries are mutable objects, and \<^verbatim>\<open>sample_jobs\<close> is a list of references
  to them. The store holds the dictionary objects, an address being the position of the
  object; a new object is put at the end. Every reference held by the program points to
  an object of the store. The items of a dictionary are held in its object: the list
  under \<^verbatim>\<open>requirements\<close>, which a copy shares with its original, is not an object of
  its own here, and changing that list in place is outside this model.
\<close>

type_synonym addr = nat

record scraper_store =
  objects :: "job list"
  sample_jobs_ref :: "addr list"

text \<open>\<^verbatim>\<open>JobScraper.__init__\<close>: eight new dictionaries and the list of their addresses.\<close>

definition JobScraper_init_store :: scraper_store where
  "JobScraper_init_store = \<lparr>
     objects = [job_001, job_002, job_003, job_004, job_005, job_006, job_007, job_008],
     sample_jobs_ref = [0, 1, 2, 3, 4, 5, 6, 7] \<rparr>"

text \<open>No reference of the catalog dangles.\<close>

definition refs_valid :: "scraper_store \<Rightarrow> bool" where
  "refs_valid st = list_all (\<lambda>a. a < length (objects st)) (sample_jobs_ref st)"

text \<open>The catalog as values: the dictionaries that \<^verbatim>\<open>sample_jobs\<close> refers to.\<close>

definition catalog :: "scraper_store \<Rightarrow> job list" where
  "catalog st = map (\<lambda>a. objects st ! a) (sample_jobs_ref st)"

text \<open>\<^verbatim>\<open>d.copy()\<close>: a new dictionary object with the same items.\<close>

definition dict_copy :: "scraper_store \<Rightarrow> addr \<Rightarrow> addr \<times> scraper_store" where
  "dict_copy st a = (length (objects st), st\<lparr> objects := objects st @ [objects st ! a] \<rparr>)"

text \<open>Assignments \<^verbatim>\<open>d[key] = value\<close> to the dictionary at an address: the object gets
  new contents.\<close>

definition dict_assign :: "scraper_store \<Rightarrow> addr \<Rightarrow> job \<Rightarrow> scraper_store" where
  "dict_assign st a j = st\<lparr> objects := (objects st)[a := j] \<rparr>"

text \<open>\<^verbatim>\<open>JobScraper.search_jobs\<close> on the store: the result is a list of references.\<close>

fun search_loop_st ::
  "string list \<Rightarrow> string \<Rightarrow> addr list \<Rightarrow> addr list \<Rightarrow> scraper_store
     \<Rightarrow> (error + addr list) \<times> scraper_store" where
  "search_loop_st keyword_list loc [] matched_jobs st = (Inr matched_jobs, st)"
| "search_loop_st keyword_list loc (a # rest) matched_jobs st =
     (let job = objects st ! a in
      case job_text job of Inl e \<Rightarrow> (Inl e, st)
      | Inr text \<Rightarrow>
          if keyword_list \<noteq> [] \<and> \<not> list_ex (\<lambda>kw. str_in kw text) keyword_list
          then search_loop_st keyword_list loc rest matched_jobs st
          else if loc \<noteq> []
          then (case dict_item ''location'' (location job) of Inl e \<Rightarrow> (Inl e, st)
                | Inr l \<Rightarrow>
                    if \<not> str_in (lower loc) (lower l)
                    then search_loop_st keyword_list loc rest matched_jobs st
                    else search_loop_st keyword_list loc rest
                           (matched_jobs @ [fst (dict_copy st a)]) (snd (dict_copy st a)))
          else search_loop_st keyword_list loc rest
                 (matched_jobs @ [fst (dict_copy st a)]) (snd (dict_copy st a)))"

definition search_jobs_st ::
  "scraper_store \<Rightarrow> string \<Rightarrow> string \<Rightarrow> int \<Rightarrow> (error + addr list) \<times> scraper_store" where
  "search_jobs_st st keywords loc limit =
     (let keyword_list = (if keywords \<noteq> [] then split (lower keywords) else []) in
      case search_loop_st keyword_list loc (sample_jobs_ref st) [] st of
        (Inl e, st') \<Rightarrow> (Inl e, st')
      | (Inr matched_jobs, st') \<Rightarrow> (Inr (slice_to matched_jobs limit), st'))"

text \<open>\<^verbatim>\<open>JobScraper.get_job_by_id\<close> on the store.\<close>

fun get_job_by_id_loop_st ::
  "addr list \<Rightarrow> string \<Rightarrow> scraper_store \<Rightarrow> (error + addr option) \<times> scraper_store" where
  "get_job_by_id_loop_st [] jid st = (Inr None, st)"
| "get_job_by_id_loop_st (a # rest) jid st =
     (case dict_item ''id'' (job_id (objects st ! a)) of Inl e \<Rightarrow> (Inl e, st)
      | Inr i \<Rightarrow>
          if i = jid then (Inr (Some (fst (dict_copy st a))), snd (dict_copy st a))
          else get_job_by_id_loop_st rest jid st)"

definition get_job_by_id_st ::
  "scraper_store \<Rightarrow> string \<Rightarrow> (error + addr option) \<times> scraper_store" where
  "get_job_by_id_st st jid = get_job_by_id_loop_st (sample_jobs_ref st) jid st"

text \<open>\<^verbatim>\<open>JobScraper.get_all_jobs\<close> on the store: the comprehension copies each dictionary
  in turn.\<close>

fun copy_all :: "addr list \<Rightarrow> scraper_store \<Rightarrow> addr list \<times> scraper_store" where
  "copy_all [] st = ([], st)"
| "copy_all (a # rest) st =
     (case copy_all rest (snd (dict_copy st a)) of
        (cs, st') \<Rightarrow> (fst (dict_copy st a) # cs, st'))"

definition get_all_jobs_st :: "scraper_store \<Rightarrow> addr list \<times> scraper_store" where
  "get_all_jobs_st st = copy_all (sample_jobs_ref st) st"

section \<open>customizer.py\<close>

text \<open>A resume dictionary, by the keys the program reads or writes; \<open>None\<close> is a missing
  key. The value under \<^verbatim>\<open>customized_for\<close> is a dictionary of its own.\<close>

record customization =
  cf_job_title :: "string option"
  cf_company :: "string option"
  cf_matching_skills :: "string list option"
  cf_match_score :: "rat option"

definition empty_customization :: customization where
  "empty_customization = \<lparr> cf_job_title = None, cf_company = None,
     cf_matching_skills = None, cf_match_score = None \<rparr>"

record resume =
  name :: "string option"
  email :: "string option"
  phone :: "string option"
  resume_location :: "string option"
  experience :: "int option"
  skills :: "string list option"
  summary :: "string option"
  experience_details :: "string list option"
  education :: "string option"
  certifications :: "string list option"
  customized_for :: "customization option"

text \<open>\<^verbatim>\<open>ResumeCustomizer\<close>: the object holds the model, the vocabulary and the sample
  resume. The model and the vocabulary are values of arbitrary types.\<close>

record ('m, 'v) customizer =
  model :: 'm
  vocab :: 'v
  sample_resume :: resume

text \<open>\<^verbatim>\<open>ResumeCustomizer.__init__\<close>.\<close>

definition ResumeCustomizer_init :: "'m \<Rightarrow> 'v \<Rightarrow> ('m, 'v) customizer" where
  "ResumeCustomizer_init m v = \<lparr>
     model = m,
     vocab = v,
     sample_resume = \<lparr>
       name = Some ''Alex Chen'',
       email = Some ''alex.chen@email.com'',
       phone = Some ''+1-555-0123'',
       resume_location = Some ''San Francisco, CA'',
       experience = Some 6,
       skills = Some [''Python'', ''Java'', ''Docker'', ''Kubernetes'', ''AWS'',
                      ''Machine Learning'', ''PostgreSQL'', ''REST API'', ''Git''],
       summary = Some ''Experienced software engineer with 6+ years building scalable distributed systems and machine learning applications'',
       experience_details = Some [
         ''Led team of 8 engineers developing microservices platform serving 10M+ users'',
         ''Architected and deployed Kubernetes infrastructure reducing deployment time by 70%'',
         ''Implemented ML pipeline processing 1B+ events daily with 99.9% uptime'',
         ''Reduced API latency by 60% through query optimization and caching strategies''],
       education = Some ''BS Computer Science, Stanford University'',
       certifications = Some [''AWS Certified Solutions Architect'', ''Kubernetes Administrator''],
       customized_for = None \<rparr> \<rparr>"

text \<open>\<^verbatim>\<open>ResumeCustomizer._get_matching_skills\<close>.\<close>

definition get_matching_skills :: "string list \<Rightarrow> string list \<Rightarrow> string list" where
  "get_matching_skills resume_skills job_skills =
     (let resume_set = set (map lower resume_skills);
          job_set = set (map lower job_skills);
          matching = resume_set \<inter> job_set
      in filter (\<lambda>s. lower s \<in> matching) resume_skills)"

text \<open>\<^verbatim>\<open>ResumeCustomizer._generate_custom_summary\<close>. The job title and the company are
  parameters that the body does not read.\<close>

definition generate_custom_summary ::
  "resume \<Rightarrow> string \<Rightarrow> string \<Rightarrow> string list \<Rightarrow> string" where
  "generate_custom_summary r job_title company_name matching_skills =
     (let experience_years = dict_get (experience r) 0;
          skills_str = join '', '' (slice_to matching_skills 5)
      in ''Experienced software engineer with '' @ str_int experience_years
           @ ''+ years of expertise ''
         @ ''specializing in '' @ skills_str @ ''. ''
         @ ''Proven track record in building scalable systems and delivering high-impact solutions. ''
         @ ''Passionate about leveraging technology to solve complex problems.'')"

text \<open>\<^verbatim>\<open>ResumeCustomizer._select_relevant_experience\<close>: each bullet is scored by the number
  of lowercased job skills that occur in it; the sort is stable, by descending score.\<close>

definition select_relevant_experience :: "string list \<Rightarrow> string list \<Rightarrow> string list" where
  "select_relevant_experience details job_skills =
     (let job_skills_lower = set (map lower job_skills);
          scored_experiences =
            map (\<lambda>e. (card (Set.filter (\<lambda>skill. str_in skill (lower e)) job_skills_lower), e))
              details;
          sorted_experiences = sort_key (\<lambda>x. - int (fst x)) scored_experiences
      in map snd (slice_to sorted_experiences 4))"

text \<open>\<^verbatim>\<open>ResumeCustomizer.customize_for_job\<close>. The keys of the sample resume are read with
  \<^verbatim>\<open>[...]\<close>, in the order skills, experience_details, name, email, phone, location,
  experience, education, certifications; a missing key ends the call with its error.\<close>

definition customize_for_job :: "('m, 'v) customizer \<Rightarrow> job \<Rightarrow> error + resume" where
  "customize_for_job self job =
     (let job_desc = dict_get (description job) '''';
          job_title = dict_get (title job) '''';
          job_skills = dict_get (requirements job) [];
          company_name = dict_get (company job) '''';
          sr = sample_resume self
      in
      raise_or (dict_item ''skills'' (skills sr)) (\<lambda>resume_skills.
      let matching_skills = get_matching_skills resume_skills job_skills;
          prioritized_skills =
            matching_skills @ filter (\<lambda>s. s \<notin> set matching_skills) resume_skills;
          customized_summary = generate_custom_summary sr job_title company_name matching_skills
      in
      raise_or (dict_item ''experience_details'' (experience_details sr)) (\<lambda>details.
      let relevant_experience = select_relevant_experience details job_skills in
      raise_or (dict_item ''name'' (name sr)) (\<lambda>v_name.
      raise_or (dict_item ''email'' (email sr)) (\<lambda>v_email.
      raise_or (dict_item ''phone'' (phone sr)) (\<lambda>v_phone.
      raise_or (dict_item ''location'' (resume_location sr)) (\<lambda>v_location.
      raise_or (dict_item ''experience'' (experience sr)) (\<lambda>v_experience.
      raise_or (dict_item ''education'' (education sr)) (\<lambda>v_education.
      raise_or (dict_item ''certifications'' (certifications sr)) (\<lambda>v_certifications.
      Inr \<lparr>
        name = Some v_name,
        email = Some v_email,
        phone = Some v_phone,
        resume_location = Some v_location,
        experience = Some v_experience,
        skills = Some (slice_to prioritized_skills 10),
        summary = Some customized_summary,
        experience_details = Some relevant_experience,
        education = Some v_education,
        certifications = Some v_certifications,
        customized_for = Some \<lparr>
          cf_job_title = Some job_title,
          cf_company = Some company_name,
          cf_matching_skills = Some matching_skills,
          cf_match_score = Some (if job_skills \<noteq> []
             then of_nat (length matching_skills) / of_nat (length job_skills)
             else 0) \<rparr> \<rparr>))))))))))"

text \<open>\<^verbatim>\<open>ResumeCustomizer.generate_cover_letter\<close>: the f-string, stripped.\<close>

definition generate_cover_letter :: "('m, 'v) customizer \<Rightarrow> job \<Rightarrow> resume \<Rightarrow> string" where
  "generate_cover_letter self job r =
     (let v_name = dict_get (name r) ''Applicant'';
          job_title = dict_get (title job) ''Position'';
          company_name = dict_get (company job) ''Company'';
          matching_skills =
            dict_get (cf_matching_skills (dict_get (customized_for r) empty_customization)) []
      in strip (
        ''\<newline>Dear Hiring Manager,\<newline>\<newline>''
        @ ''I am writing to express my strong interest in the '' @ job_title
        @ '' position at '' @ company_name @ ''. \<newline>''
        @ ''With '' @ str_int (dict_get (experience r) 0)
        @ '' years of professional experience and expertise in \<newline>''
        @ join '', '' (slice_to matching_skills 3)
        @ '', I am confident I would be a valuable addition to your team.\<newline>\<newline>''
        @ dict_get (summary r) '''' @ ''\<newline>\<newline>''
        @ ''I am particularly excited about this opportunity because it aligns perfectly with my \<newline>''
        @ ''technical skills and career goals. I look forward to the possibility of discussing how \<newline>''
        @ ''my experience and skills can contribute to '' @ company_name @ '''s success.\<newline>\<newline>''
        @ ''Thank you for considering my application.\<newline>\<newline>''
        @ ''Best regards,\<newline>'' @ v_name @ ''\<newline>        ''))"

text \<open>\<^verbatim>\<open>ResumeCustomizer.batch_customize\<close>: the comprehension stops at the first error.\<close>

fun batch_customize :: "('m, 'v) customizer \<Rightarrow> job list \<Rightarrow> error + resume list" where
  "batch_customize self [] = Inr []"
| "batch_customize self (job # jobs) =
     (case customize_for_job self job of Inl e \<Rightarrow> Inl e
      | Inr r \<Rightarrow>
          (case batch_customize self jobs of Inl e \<Rightarrow> Inl e | Inr rs \<Rightarrow> Inr (r # rs)))"

text \<open>\<^verbatim>\<open>ResumeCustomizer.get_sample_resume\<close>: a copy of the dictionary.\<close>

definition get_sample_resume :: "('m, 'v) customizer \<Rightarrow> resume" where
  "get_sample_resume self = sample_resume self"

section \<open>classifier.py: match details\<close>

text \<open>\<^verbatim>\<open>JobRelevanceClassifier._get_recommendation\<close>.\<close>

definition get_recommendation :: "rat \<Rightarrow> string" where
  "get_recommendation score =
     (if score \<ge> 8 / 10 then ''Highly Recommended - Strong match''
      else if score \<ge> 6 / 10 then ''Recommended - Good match''
      else if score \<ge> 4 / 10 then ''Consider - Moderate match''
      else if score \<ge> 2 / 10 then ''Possible - Weak match''
      else ''Not Recommended - Poor match'')"

text \<open>\<^verbatim>\<open>JobRelevanceClassifier.get_match_details\<close>. The three skill lists are built from
  sets, in no specified order; they are kept as sets. The key \<^verbatim>\<open>match_percentage\<close>, a
  decimal rendering of the score, is left out.\<close>

record match_details =
  md_relevance_score :: rat
  md_matching_skills :: "string set"
  md_missing_skills :: "string set"
  md_extra_skills :: "string set"
  md_recommendation :: string

definition get_match_details :: "job \<Rightarrow> string list \<Rightarrow> match_details" where
  "get_match_details job resume_skills =
     (let job_skills = dict_get (requirements job) [];
          resume_set = set (map lower resume_skills);
          job_set = set (map lower job_skills);
          matching = resume_set \<inter> job_set;
          missing = job_set - resume_set;
          extra = resume_set - job_set;
          score = (if job_set \<noteq> {} then of_nat (card matching) / of_nat (card job_set) else 0)
      in \<lparr> md_relevance_score = score,
           md_matching_skills = matching,
           md_missing_skills = missing,
           md_extra_skills = extra,
           md_recommendation = get_recommendation score \<rparr>)"

section \<open>agent.py\<close>

text \<open>An application record of \<^verbatim>\<open>run_workflow\<close>.\<close>

record application =
  app_job :: job
  relevance_score :: rat
  match_details :: match_details
  customized_resume :: resume
  cover_letter :: string
  application_status :: string
  recommended_action :: string

text \<open>The dictionary returned by \<^verbatim>\<open>run_workflow\<close>. The early return has the key
  \<^verbatim>\<open>message\<close>, the full run has \<^verbatim>\<open>pass_rate\<close> and \<^verbatim>\<open>avg_relevance_score\<close>. The key
  \<^verbatim>\<open>summary\<close> of the full run, statistics rendered as decimal strings, is left out.\<close>

record workflow_result =
  total_jobs_found :: nat
  relevant_jobs :: nat
  pass_rate :: "rat option"
  avg_relevance_score :: "rat option"
  applications :: "application list"
  message :: "string option"

text \<open>\<^verbatim>\<open>JobApplicationAgent\<close>: the scraper, the customizer and the history of results.
  The classifier and the utilities hold nothing that the workflow reads.\<close>

record ('m, 'v) agent =
  agent_scraper :: scraper
  agent_customizer :: "('m, 'v) customizer"
  workflow_results :: "workflow_result list"

text \<open>\<^verbatim>\<open>JobApplicationAgent.__init__\<close>.\<close>

definition JobApplicationAgent_init :: "scraper \<Rightarrow> ('m, 'v) customizer \<Rightarrow> ('m, 'v) agent" where
  "JobApplicationAgent_init s c =
     \<lparr> agent_scraper = s, agent_customizer = c, workflow_results = [] \<rparr>"

text \<open>Step 3 of \<^verbatim>\<open>run_workflow\<close>: the loop over the jobs found; the last argument is the
  list \<^verbatim>\<open>applications\<close> built so far.\<close>

fun applications_loop ::
  "('m, 'v) customizer \<Rightarrow> string list \<Rightarrow> rat \<Rightarrow> job list \<Rightarrow> application list
     \<Rightarrow> error + application list" where
  "applications_loop c resume_skills min_relevance [] apps = Inr apps"
| "applications_loop c resume_skills min_relevance (job # rest) apps =
     (let score = classify_job job resume_skills in
      if score \<ge> min_relevance
      then raise_or (customize_for_job c job) (\<lambda>customized.
             let details = get_match_details job resume_skills;
                 application = \<lparr>
                   app_job = job,
                   relevance_score = score,
                   match_details = details,
                   customized_resume = customized,
                   cover_letter = generate_cover_letter c job customized,
                   application_status = ''Ready to Apply'',
                   recommended_action = md_recommendation details \<rparr>
             in applications_loop c resume_skills min_relevance rest (apps @ [application]))
      else applications_loop c resume_skills min_relevance rest apps)"

text \<open>\<^verbatim>\<open>np.mean\<close> of a non-empty list of scores.\<close>

definition mean :: "rat list \<Rightarrow> rat" where
  "mean xs = sum_list xs / of_nat (length xs)"

text \<open>\<^verbatim>\<open>JobApplicationAgent.run_workflow\<close>. The result comes with the agent after the
  call: a full run appends its result to the history, the early return and an error leave
  the agent as it was.\<close>

definition run_workflow ::
  "('m, 'v) agent \<Rightarrow> string \<Rightarrow> string \<Rightarrow> int \<Rightarrow> rat
     \<Rightarrow> (error + workflow_result) \<times> ('m, 'v) agent" where
  "run_workflow self keywords loc num_jobs min_relevance =
     (case search_jobs (agent_scraper self) keywords loc num_jobs of
        Inl e \<Rightarrow> (Inl e, self)
      | Inr jobs \<Rightarrow>
          if jobs = []
          then (Inr \<lparr> total_jobs_found = 0, relevant_jobs = 0, pass_rate = None,
                       avg_relevance_score = None, applications = [],
                       message = Some ''No jobs found matching criteria'' \<rparr>, self)
          else
            (case dict_item ''skills'' (skills (get_sample_resume (agent_customizer self))) of
               Inl e \<Rightarrow> (Inl e, self)
             | Inr resume_skills \<Rightarrow>
                 (case applications_loop (agent_customizer self) resume_skills min_relevance
                         jobs [] of
                    Inl e \<Rightarrow> (Inl e, self)
                  | Inr apps \<Rightarrow>
                      let ranked = sort_key (\<lambda>a. - relevance_score a) apps;
                          workflow_result = \<lparr>
                            total_jobs_found = length jobs,
                            relevant_jobs = length ranked,
                            pass_rate = Some (of_nat (length ranked) / of_nat (length jobs)),
                            avg_relevance_score =
                              Some (if ranked \<noteq> [] then mean (map relevance_score ranked)
                                    else 0),
                            applications = ranked,
                            message = None \<rparr>
                      in (Inr workflow_result,
                          self\<lparr> workflow_results :=
                                  workflow_results self @ [workflow_result] \<rparr>))))"

section \<open>mayini\_model.py: the transformer block\<close>

text \<open>
  \<^verbatim>\<open>MAYINITransformerBlock\<close> is assembled from layers of the deep-learning framework:
  multi-head attention, a feed-forward stack, two layer normalizations and a dropout.
  The layers are parameters of the model. Tensors are values of an arbitrary type with
  an addition. Attention, feed-forward stack and dropout draw from the random generator
  of the framework when the module is in training mode, so they take the state of the
  generator and return the new one; layer normalization is a function of its input.
  Attention returns its output together with the attention weights.
\<close>

record ('t, 'k, 'g) MAYINITransformerBlock =
  attention :: "'g \<Rightarrow> 't \<Rightarrow> 't \<Rightarrow> 't \<Rightarrow> 'k option \<Rightarrow> ('t \<times> 't) \<times> 'g"
  feed_forward :: "'g \<Rightarrow> 't \<Rightarrow> 't \<times> 'g"
  norm1 :: "'t \<Rightarrow> 't"
  norm2 :: "'t \<Rightarrow> 't"
  dropout :: "'g \<Rightarrow> 't \<Rightarrow> 't \<times> 'g"

text \<open>\<^verbatim>\<open>MAYINITransformerBlock.forward\<close>; the variable \<^verbatim>\<open>x\<close> of the source is assigned
  twice, \<open>x1\<close> and \<open>x2\<close> are its later values.\<close>

definition MAYINITransformerBlock_forward ::
  "('t::plus, 'k, 'g) MAYINITransformerBlock \<Rightarrow> 'g \<Rightarrow> 't \<Rightarrow> 'k option \<Rightarrow> 't \<times> 'g" where
  "MAYINITransformerBlock_forward self g x key_padding_mask =
     (case attention self g x x x key_padding_mask of
        ((attn_out, attn_weights), g1) \<Rightarrow>
          (case dropout self g1 attn_out of
             (dropped, g2) \<Rightarrow>
               let x1 = norm1 self (x + dropped) in
               (case feed_forward self g2 x1 of
                  (ff_out, g3) \<Rightarrow>
                    let x2 = norm2 self (x1 + ff_out) in (x2, g3))))"

text \<open>The pre-norm arrangement, for comparison: each sublayer reads the normalized
  input and its output is added to the input that was not normalized.\<close>

definition pre_norm_forward ::
  "('t::plus, 'k, 'g) MAYINITransformerBlock \<Rightarrow> 'g \<Rightarrow> 't \<Rightarrow> 'k option \<Rightarrow> 't \<times> 'g" where
  "pre_norm_forward self g x key_padding_mask =
     (let n = norm1 self x in
      case attention self g n n n key_padding_mask of
        ((attn_out, attn_weights), g1) \<Rightarrow>
          (case dropout self g1 attn_out of
             (dropped, g2) \<Rightarrow>
               let x1 = x + dropped in
               (case feed_forward self g2 (norm2 self x1) of
                  (ff_out, g3) \<Rightarrow> (x1 + ff_out, g3))))"

section \<open>The Jaccard overlap, as the specification words it\<close>

definition jaccard :: "string set \<Rightarrow> string set \<Rightarrow> rat" where
  "jaccard R J = of_nat (card (R \<inter> J)) / of_nat (card (R \<union> J))"

section \<open>Properties of the relevance score\<close>

lemma classify_job_nonempty:
  assumes "requirements job = Some js" and "js \<noteq> []"
  shows "classify_job job rs =
           of_nat (card (set (map lower rs) \<inter> set (map lower js)))
             / of_nat (card (set (map lower js)))"
proof -
  let ?R = "set (map lower rs)" and ?J = "set (map lower js)"
  have pos: "0 < card ?J"
    using assms(2) by (simp add: card_gt_0_iff)
  have "card (?R \<inter> ?J) \<le> card ?J"
    by (rule card_mono) auto
  then have "(of_nat (card (?R \<inter> ?J)) :: rat) \<le> of_nat (card ?J)"
    by (simp only: of_nat_le_iff)
  then have "(of_nat (card (?R \<inter> ?J)) :: rat) / of_nat (card ?J) \<le> 1"
    using pos by (simp add: divide_le_eq)
  then show ?thesis
    using assms pos by (simp add: classify_job_def dict_get_def Let_def min_def)
qed

text \<open>
  C1 (as stated, refuted). With the resume skills Python and Java and the single
  requirement Python, the score of the code is 1 while the Jaccard overlap of the two
  lowercased sets is 1/2.
\<close>

theorem classify_job_jaccard_counterexample:
  "classify_job (empty_job\<lparr>requirements := Some [''Python'']\<rparr>) [''Python'', ''Java''] = 1
   \<and> jaccard (set (map lower [''Python'', ''Java''])) (set (map lower [''Python''])) = 1 / 2"
  by code_simp

text \<open>
  C1 (amended). For a job with a non-empty requirements list, the score is the share of
  the lowercased requirement set J that the lowercased resume-skill set R covers,
  |R \<inter> J| / |J|, and it lies between 0 and 1.
\<close>

theorem classify_job_coverage:
  assumes "requirements job = Some js" and "js \<noteq> []"
  shows "classify_job job rs =
           of_nat (card (set (map lower rs) \<inter> set (map lower js)))
             / of_nat (card (set (map lower js)))
         \<and> 0 \<le> classify_job job rs \<and> classify_job job rs \<le> 1"
proof -
  let ?R = "set (map lower rs)" and ?J = "set (map lower js)"
  have eq: "classify_job job rs = of_nat (card (?R \<inter> ?J)) / of_nat (card ?J)"
    using assms by (rule classify_job_nonempty)
  have pos: "0 < card ?J"
    using assms(2) by (simp add: card_gt_0_iff)
  have "card (?R \<inter> ?J) \<le> card ?J"
    by (rule card_mono) auto
  then have le: "(of_nat (card (?R \<inter> ?J)) :: rat) \<le> of_nat (card ?J)"
    by (simp only: of_nat_le_iff)
  have "(of_nat (card (?R \<inter> ?J)) :: rat) / of_nat (card ?J) \<le> 1"
    using pos le by (simp add: divide_le_eq)
  moreover have "(0::rat) \<le> of_nat (card (?R \<inter> ?J)) / of_nat (card ?J)"
    by simp
  ultimately show ?thesis
    using eq by simp
qed

theorem classify_job_coverage_witness:
  "requirements (empty_job\<lparr>requirements := Some [''Python'', ''Docker'', ''Kubernetes'']\<rparr>)
     = Some [''Python'', ''Docker'', ''Kubernetes'']
   \<and> [''Python'', ''Docker'', ''Kubernetes''] \<noteq> []
   \<and> classify_job (empty_job\<lparr>requirements := Some [''Python'', ''Docker'', ''Kubernetes'']\<rparr>)
        [''python'', ''DOCKER''] = 2 / 3"
proof -
  let ?job = "empty_job\<lparr>requirements := Some [''Python'', ''Docker'', ''Kubernetes'']\<rparr>"
  have h1: "requirements ?job = Some [''Python'', ''Docker'', ''Kubernetes'']"
    by simp
  have h2: "[''Python'', ''Docker'', ''Kubernetes''] \<noteq> []"
    by simp
  have c: "(of_nat (card (set (map lower [''python'', ''DOCKER''])
              \<inter> set (map lower [''Python'', ''Docker'', ''Kubernetes''])))
            / of_nat (card (set (map lower [''Python'', ''Docker'', ''Kubernetes''])))
            :: rat) = 2 / 3"
    by code_simp
  from classify_job_coverage [OF h1 h2, of "[''python'', ''DOCKER'']"] c h1 h2
  show ?thesis by simp
qed

text \<open>
  C7. The score depends only on the two lowercased sets: resume-skill lists with the
  same set of lowercased values and jobs whose requirements lists (the empty list when
  the key is missing) have the same set of lowercased values get the same score.
\<close>

theorem classify_job_depends_on_sets:
  assumes "set (map lower rs1) = set (map lower rs2)"
    and "set (map lower (dict_get (requirements job1) []))
         = set (map lower (dict_get (requirements job2) []))"
  shows "classify_job job1 rs1 = classify_job job2 rs2"
proof -
  have "(dict_get (requirements job1) [] = []) = (dict_get (requirements job2) [] = [])"
    using assms(2) by (metis set_empty map_is_Nil_conv)
  then show ?thesis
    using assms by (simp add: classify_job_def Let_def)
qed

theorem classify_job_depends_on_sets_witness:
  "set (map lower [''Python'', ''AWS'', ''python'']) = set (map lower [''aws'', ''PYTHON''])
   \<and> set (map lower (dict_get (requirements
         (empty_job\<lparr>requirements := Some [''AWS'', ''Docker'', ''aws'']\<rparr>)) []))
     = set (map lower (dict_get (requirements
         (empty_job\<lparr>title := Some ''Engineer'', requirements := Some [''docker'', ''Aws'']\<rparr>)) []))
   \<and> classify_job (empty_job\<lparr>requirements := Some [''AWS'', ''Docker'', ''aws'']\<rparr>)
        [''Python'', ''AWS'', ''python'']
     = classify_job (empty_job\<lparr>title := Some ''Engineer'', requirements := Some [''docker'', ''Aws'']\<rparr>)
        [''aws'', ''PYTHON'']"
proof -
  have h1: "set (map lower [''Python'', ''AWS'', ''python'']) = set (map lower [''aws'', ''PYTHON''])"
    by code_simp
  have h2: "set (map lower (dict_get (requirements
         (empty_job\<lparr>requirements := Some [''AWS'', ''Docker'', ''aws'']\<rparr>)) []))
     = set (map lower (dict_get (requirements
         (empty_job\<lparr>title := Some ''Engineer'', requirements := Some [''docker'', ''Aws'']\<rparr>)) []))"
    by code_simp
  from classify_job_depends_on_sets [OF h1 h2] h1 h2 show ?thesis
    by blast
qed

text \<open>
  C9. A job whose requirements key is missing or holds the empty list is scored 1/2 by
  \<open>classify_job\<close>, whatever the resume skills, while \<open>calculate_skill_match\<close> gives 1
  for the empty list of job skills: the two entry points differ there.
\<close>

theorem empty_requirements_disagree:
  assumes "requirements job = None \<or> requirements job = Some []"
  shows "classify_job job rs = 1 / 2
         \<and> calculate_skill_match rs [] = 1
         \<and> classify_job job rs \<noteq> calculate_skill_match rs (dict_get (requirements job) [])"
  using assms by (auto simp add: classify_job_def calculate_skill_match_def dict_get_def)

theorem empty_requirements_disagree_witness:
  "(requirements empty_job = None \<or> requirements empty_job = Some [])
   \<and> classify_job empty_job [''Python'', ''Docker''] = 1 / 2
   \<and> calculate_skill_match [''Python'', ''Docker''] [] = 1"
proof -
  have h: "requirements empty_job = None \<or> requirements empty_job = Some []"
    by (simp add: empty_job_def)
  from empty_requirements_disagree [OF h, of "[''Python'', ''Docker'']"] h
  show ?thesis by simp
qed

section \<open>Properties of the scraper\<close>

lemma search_loop_subseq:
  "search_loop kws loc jobs acc = Inr r \<Longrightarrow> \<exists>ys. r = acc @ ys \<and> subseq ys jobs"
proof (induction jobs arbitrary: acc)
  case Nil
  then show ?case by simp
next
  case (Cons j jobs)
  show ?case
    using Cons.prems Cons.IH
    by (fastforce split: sum.splits if_splits)
qed

lemma search_loop_returns:
  assumes "\<forall>j\<in>set jobs. title j \<noteq> None \<and> description j \<noteq> None
             \<and> requirements j \<noteq> None \<and> location j \<noteq> None"
  shows "\<exists>r. search_loop kws loc jobs acc = Inr r"
  using assms
proof (induction jobs arbitrary: acc)
  case Nil
  then show ?case by simp
next
  case (Cons j jobs)
  then obtain t d r l where "title j = Some t" "description j = Some d"
     "requirements j = Some r" "location j = Some l"
    by auto
  moreover have "\<And>acc. \<exists>r. search_loop kws loc jobs acc = Inr r"
    using Cons by simp
  ultimately show ?case
    by (auto simp add: job_text_def dict_item_def)
qed

lemma slice_to_nonneg:
  "0 \<le> n \<Longrightarrow> slice_to xs n = take (nat n) xs"
  by (simp add: slice_to_def)

lemma subseq_take: "subseq (take n xs) xs"
proof -
  have "prefix (take n xs) xs"
    by (rule take_is_prefix)
  then show ?thesis
    by (rule prefix_imp_subseq)
qed

lemma subseq_set: "subseq xs ys \<Longrightarrow> set xs \<subseteq> set ys"
  by (induction rule: list_emb.induct) auto


lemma search_loop_catalog:
  assumes m: "search_loop kws loc jobs [] = Inr m"
  shows "subseq m jobs"
proof -
  from search_loop_subseq [OF m] obtain ys where "m = [] @ ys" and "subseq ys jobs"
    by blast
  then show ?thesis by (simp only: append_Nil)
qed

lemma catalog_keys:
  "\<forall>j\<in>set [job_001, job_002, job_003, job_004, job_005, job_006, job_007, job_008].
     title j \<noteq> None \<and> description j \<noteq> None \<and> requirements j \<noteq> None \<and> location j \<noteq> None"
  by (simp add: job_001_def job_002_def job_003_def job_004_def job_005_def
        job_006_def job_007_def job_008_def)

text \<open>
  C2. On a newly constructed scraper and for a non-negative limit, \<open>search_jobs\<close> returns
  (it raises nothing) a list that is a subsequence, in catalog order, of the eight literal
  dictionaries of \<open>__init__\<close>, of length at most the limit; every entry is one of the eight.
\<close>

theorem search_jobs_catalog_subsequence:
  assumes "0 \<le> limit"
  shows "\<exists>js. search_jobs JobScraper_init keywords loc limit = Inr js
           \<and> subseq js [job_001, job_002, job_003, job_004, job_005, job_006, job_007, job_008]
           \<and> int (length js) \<le> limit
           \<and> set js \<subseteq> set [job_001, job_002, job_003, job_004, job_005, job_006, job_007, job_008]"
proof -
  let ?cat = "[job_001, job_002, job_003, job_004, job_005, job_006, job_007, job_008]"
  let ?kws = "if keywords \<noteq> [] then split (lower keywords) else []"
  from search_loop_returns [OF catalog_keys]
  obtain m where m: "search_loop ?kws loc ?cat [] = Inr m"
    by blast
  have sub: "subseq m ?cat"
    using m by (rule search_loop_catalog)
  have cat: "sample_jobs JobScraper_init = ?cat"
    by (simp add: JobScraper_init_def)
  have res: "search_jobs JobScraper_init keywords loc limit = Inr (take (nat limit) m)"
    unfolding search_jobs_def Let_def cat m using assms by (simp add: slice_to_nonneg)
  have "subseq (take (nat limit) m) m"
    by (rule subseq_take)
  then have s2: "subseq (take (nat limit) m) ?cat"
    using sub by (rule subseq_order.trans)
  have len: "int (length (take (nat limit) m)) \<le> limit"
    using assms by simp
  have "set (take (nat limit) m) \<subseteq> set ?cat"
    using s2 by (rule subseq_set)
  with res s2 len show ?thesis
    by blast
qed

theorem search_jobs_catalog_subsequence_witness:
  "(0::int) \<le> 1
   \<and> search_jobs JobScraper_init ''python KAFKA'' ''remote'' 1 = Inr [job_001]
   \<and> subseq [job_001] [job_001, job_002, job_003, job_004, job_005, job_006, job_007, job_008]"
proof -
  have h: "(0::int) \<le> 1"
    by simp
  have run: "search_jobs JobScraper_init ''python KAFKA'' ''remote'' 1 = Inr [job_001]"
    by code_simp
  from search_jobs_catalog_subsequence [OF h, of "''python KAFKA''" "''remote''"] run
  have "subseq [job_001] [job_001, job_002, job_003, job_004, job_005, job_006, job_007, job_008]"
    by simp
  with h run show ?thesis
    by simp
qed

section \<open>The scraper on the store\<close>

lemma dict_copy_simps:
  "fst (dict_copy st a) = length (objects st)"
  "objects (snd (dict_copy st a)) = objects st @ [objects st ! a]"
  "sample_jobs_ref (snd (dict_copy st a)) = sample_jobs_ref st"
  by (simp_all add: dict_copy_def)

lemma search_loop_st_frame:
  "search_loop_st kws loc as m st = (res, st')
     \<Longrightarrow> sample_jobs_ref st' = sample_jobs_ref st \<and> prefix (objects st) (objects st')"
proof (induction as arbitrary: m st)
  case Nil
  then show ?case by simp
next
  case (Cons a as)
  have step: "\<And>m1. search_loop_st kws loc as m1 (snd (dict_copy st a)) = (res, st')
     \<Longrightarrow> sample_jobs_ref st' = sample_jobs_ref st \<and> prefix (objects st) (objects st')"
    using Cons.IH [of _ "snd (dict_copy st a)"]
    by (auto simp add: dict_copy_simps dest: append_prefixD)
  show ?case
    using Cons.prems Cons.IH [of _ st] step
    by (auto simp add: Let_def split: sum.splits if_splits)
qed

lemma search_loop_st_fresh:
  "search_loop_st kws loc as m st = (Inr rs, st')
     \<Longrightarrow> \<exists>new. rs = m @ new \<and> distinct new
           \<and> (\<forall>r\<in>set new. length (objects st) \<le> r \<and> r < length (objects st'))"
proof (induction as arbitrary: m st)
  case Nil
  then show ?case by simp
next
  case (Cons a as)
  have step: "\<exists>new. rs = m @ new \<and> distinct new
           \<and> (\<forall>r\<in>set new. length (objects st) \<le> r \<and> r < length (objects st'))"
    if run: "search_loop_st kws loc as (m @ [fst (dict_copy st a)]) (snd (dict_copy st a)) = (Inr rs, st')"
  proof -
    from Cons.IH [OF run] obtain new where new: "rs = (m @ [length (objects st)]) @ new"
      "distinct new" "\<forall>r\<in>set new. Suc (length (objects st)) \<le> r \<and> r < length (objects st')"
      by (auto simp add: dict_copy_simps)
    from search_loop_st_frame [OF run] have "prefix (objects st @ [objects st ! a]) (objects st')"
      by (simp add: dict_copy_simps)
    then have "length (objects st @ [objects st ! a]) \<le> length (objects st')"
      by (rule prefix_length_le)
    then have len: "length (objects st) < length (objects st')"
      by simp
    have "rs = m @ (length (objects st) # new)"
      using new(1) by simp
    moreover have "distinct (length (objects st) # new)"
      using new(2,3) by auto
    moreover have "\<forall>r\<in>set (length (objects st) # new). length (objects st) \<le> r \<and> r < length (objects st')"
      using new(3) len by auto
    ultimately show ?thesis
      by blast
  qed
  show ?case
    using Cons.prems Cons.IH [of m st] step
    by (auto simp add: Let_def split: sum.splits if_splits)
qed


lemma nth_prefix: "prefix xs ys \<Longrightarrow> i < length xs \<Longrightarrow> ys ! i = xs ! i"
  by (auto simp add: prefix_def nth_append)

lemma search_loop_st_values:
  assumes "\<forall>a\<in>set as. a < length (objects st)" and "\<forall>a\<in>set m. a < length (objects st)"
  shows "(case search_loop_st kws loc as m st of
            (Inl e, st') \<Rightarrow> Inl e
          | (Inr rs, st') \<Rightarrow> Inr (map (\<lambda>a. objects st' ! a) rs))
         = search_loop kws loc (map (\<lambda>a. objects st ! a) as) (map (\<lambda>a. objects st ! a) m)"
  using assms
proof (induction as arbitrary: m st)
  case Nil
  then show ?case by simp
next
  case (Cons a as)
  let ?st1 = "snd (dict_copy st a)" and ?c = "fst (dict_copy st a)"
  have same: "\<And>xs. \<forall>x\<in>set xs. x < length (objects st)
      \<Longrightarrow> map (\<lambda>a. objects ?st1 ! a) xs = map (\<lambda>a. objects st ! a) xs"
    by (simp add: dict_copy_simps nth_append)
  have v1: "\<forall>x\<in>set as. x < length (objects ?st1)"
    using Cons.prems(1) by (auto simp add: dict_copy_simps)
  have v2: "\<forall>x\<in>set (m @ [?c]). x < length (objects ?st1)"
    using Cons.prems(2) by (auto simp add: dict_copy_simps)
  have e1: "map (\<lambda>a. objects ?st1 ! a) (m @ [?c]) = map (\<lambda>a. objects st ! a) m @ [objects st ! a]"
    using same [of m] Cons.prems(2) by (simp add: dict_copy_simps)
  have e2: "map (\<lambda>a. objects ?st1 ! a) as = map (\<lambda>a. objects st ! a) as"
    using same [of as] Cons.prems(1) by simp
  have copy: "(case search_loop_st kws loc as (m @ [?c]) ?st1 of
            (Inl e, st') \<Rightarrow> Inl e
          | (Inr rs, st') \<Rightarrow> Inr (map (\<lambda>a. objects st' ! a) rs))
         = search_loop kws loc (map (\<lambda>a. objects st ! a) as) (map (\<lambda>a. objects st ! a) m @ [objects st ! a])"
    using Cons.IH [OF v1 v2] by (simp only: e1 e2)
  have v3: "\<forall>x\<in>set as. x < length (objects st)"
    using Cons.prems(1) by simp
  have skip: "(case search_loop_st kws loc as m st of
            (Inl e, st') \<Rightarrow> Inl e
          | (Inr rs, st') \<Rightarrow> Inr (map (\<lambda>a. objects st' ! a) rs))
         = search_loop kws loc (map (\<lambda>a. objects st ! a) as) (map (\<lambda>a. objects st ! a) m)"
    using v3 Cons.prems(2) by (rule Cons.IH)
  show ?case
    using copy skip
    by (auto simp add: Let_def split: sum.splits)
qed


lemma get_job_by_id_loop_st_frame:
  "get_job_by_id_loop_st as jid st = (res, st')
     \<Longrightarrow> sample_jobs_ref st' = sample_jobs_ref st \<and> prefix (objects st) (objects st')"
  by (induction as) (auto simp add: dict_copy_simps split: sum.splits if_splits)

lemma get_job_by_id_loop_st_fresh:
  "get_job_by_id_loop_st as jid st = (Inr (Some r), st')
     \<Longrightarrow> r = length (objects st) \<and> r < length (objects st')
         \<and> (\<exists>a\<in>set as. objects st' ! r = objects st ! a)"
  by (induction as) (auto simp add: dict_copy_simps split: sum.splits if_splits)

lemma get_job_by_id_loop_st_values:
  "(case get_job_by_id_loop_st as jid st of
      (Inl e, st') \<Rightarrow> Inl e
    | (Inr None, st') \<Rightarrow> Inr None
    | (Inr (Some r), st') \<Rightarrow> Inr (Some (objects st' ! r)))
   = get_job_by_id_loop (map (\<lambda>a. objects st ! a) as) jid"
  by (induction as) (auto simp add: dict_copy_simps split: sum.splits)

lemma copy_all_eq:
  "copy_all as st =
     ([length (objects st) ..< length (objects st) + length as],
      st\<lparr> objects := objects st @ map (\<lambda>a. objects st ! a) as \<rparr>)"
  if "\<forall>a\<in>set as. a < length (objects st)"
  using that
proof (induction as arbitrary: st)
  case Nil
  then show ?case by simp
next
  case (Cons a as)
  define st1 where "st1 = st\<lparr> objects := objects st @ [objects st ! a] \<rparr>"
  define n where "n = length (objects st)"
  have v: "\<forall>x\<in>set as. x < length (objects st1)"
    using Cons.prems by (auto simp add: st1_def)
  have same: "map (\<lambda>x. objects st1 ! x) as = map (\<lambda>x. objects st ! x) as"
    using Cons.prems by (simp add: st1_def nth_append)
  have len: "length (objects st1) = Suc n"
    by (simp add: st1_def n_def)
  have rec: "copy_all as st1 =
     ([Suc n ..< Suc n + length as],
      st1\<lparr> objects := objects st1 @ map (\<lambda>a. objects st ! a) as \<rparr>)"
    using Cons.IH [OF v] by (simp only: same len)
  have nums: "[n ..< n + length (a # as)] = n # [Suc n ..< Suc n + length as]"
  proof -
    have "n < Suc n + length as"
      by simp
    then have "[n ..< Suc n + length as] = n # [Suc n ..< Suc n + length as]"
      by (rule upt_conv_Cons)
    moreover have "n + length (a # as) = Suc n + length as"
      by simp
    ultimately show ?thesis
      by (simp only:)
  qed
  have "copy_all (a # as) st = (n # [Suc n ..< Suc n + length as],
      st1\<lparr> objects := objects st1 @ map (\<lambda>a. objects st ! a) as \<rparr>)"
    using rec by (simp add: dict_copy_def st1_def n_def)
  also have "\<dots> = ([n ..< n + length (a # as)],
      st\<lparr> objects := objects st @ map (\<lambda>a. objects st ! a) (a # as) \<rparr>)"
    by (simp only: nums) (simp add: st1_def)
  finally show ?case
    by (simp only: n_def)
qed

lemma catalog_kept:
  assumes "refs_valid st" and "sample_jobs_ref st' = sample_jobs_ref st"
    and "prefix (objects st) (objects st')"
  shows "catalog st' = catalog st"
  using assms by (auto simp add: catalog_def refs_valid_def list_all_iff nth_prefix)

lemma assign_new_object:
  assumes "refs_valid st" and "sample_jobs_ref st' = sample_jobs_ref st"
    and "prefix (objects st) (objects st')" and "length (objects st) \<le> r"
  shows "r \<notin> set (sample_jobs_ref st') \<and> catalog (dict_assign st' r j) = catalog st"
proof -
  have notin: "r \<notin> set (sample_jobs_ref st)"
    using assms(1,4) by (auto simp add: refs_valid_def list_all_iff)
  then have "\<And>x. x \<in> set (sample_jobs_ref st) \<Longrightarrow> r \<noteq> x"
    by blast
  then have "catalog (dict_assign st' r j) = catalog st'"
    using assms(2) by (simp add: catalog_def dict_assign_def)
  then show ?thesis
    using notin assms(2) catalog_kept [OF assms(1-3)] by simp
qed


lemma set_slice_to: "set (slice_to xs n) \<subseteq> set xs"
  by (auto simp add: slice_to_def dest: in_set_takeD)

lemma map_slice_to: "map f (slice_to xs n) = slice_to (map f xs) n"
  by (simp add: slice_to_def take_map)

lemma refs_validD: "refs_valid st \<Longrightarrow> \<forall>a\<in>set (sample_jobs_ref st). a < length (objects st)"
  by (simp add: refs_valid_def list_all_iff)

lemma search_jobs_st_values:
  assumes "refs_valid st"
  shows "(case search_jobs_st st keywords loc limit of
            (Inl e, st') \<Rightarrow> Inl e
          | (Inr rs, st') \<Rightarrow> Inr (map (\<lambda>a. objects st' ! a) rs))
         = search_jobs \<lparr> sample_jobs = catalog st \<rparr> keywords loc limit"
proof -
  define kws where "kws = (if keywords \<noteq> [] then split (lower keywords) else [])"
  have loop: "(case search_loop_st kws loc (sample_jobs_ref st) [] st of
            (Inl e, st') \<Rightarrow> Inl e
          | (Inr rs, st') \<Rightarrow> Inr (map (\<lambda>a. objects st' ! a) rs))
         = search_loop kws loc (catalog st) []"
    using search_loop_st_values [OF refs_validD [OF assms], of "[]" kws loc]
    by (simp add: catalog_def)
  have l: "search_jobs_st st keywords loc limit =
     (case search_loop_st kws loc (sample_jobs_ref st) [] st of
        (Inl e, st') \<Rightarrow> (Inl e, st')
      | (Inr matched_jobs, st') \<Rightarrow> (Inr (slice_to matched_jobs limit), st'))"
    by (simp add: search_jobs_st_def kws_def)
  have r: "search_jobs \<lparr> sample_jobs = catalog st \<rparr> keywords loc limit =
     (case search_loop kws loc (catalog st) [] of Inl e \<Rightarrow> Inl e
      | Inr matched_jobs \<Rightarrow> Inr (slice_to matched_jobs limit))"
    by (simp add: search_jobs_def kws_def)
  show ?thesis
    unfolding l r loop [symmetric]
    by (auto simp add: map_slice_to split: prod.splits sum.splits)
qed

lemma search_jobs_st_spec:
  assumes valid: "refs_valid st" and run: "search_jobs_st st keywords loc limit = (res, st')"
  shows "sample_jobs_ref st' = sample_jobs_ref st \<and> prefix (objects st) (objects st')
         \<and> (\<forall>rs. res = Inr rs \<longrightarrow>
               (\<forall>r\<in>set rs. length (objects st) \<le> r \<and> r < length (objects st')
                  \<and> objects st' ! r \<in> set (catalog st)))"
proof -
  define kws where "kws = (if keywords \<noteq> [] then split (lower keywords) else [])"
  have l: "search_jobs_st st keywords loc limit =
     (case search_loop_st kws loc (sample_jobs_ref st) [] st of
        (Inl e, st') \<Rightarrow> (Inl e, st')
      | (Inr matched_jobs, st') \<Rightarrow> (Inr (slice_to matched_jobs limit), st'))"
    by (simp add: search_jobs_st_def kws_def)
  obtain res0 where loop: "search_loop_st kws loc (sample_jobs_ref st) [] st = (res0, st')"
    and res: "res = (case res0 of Inl e \<Rightarrow> Inl e | Inr m \<Rightarrow> Inr (slice_to m limit))"
    using run unfolding l by (auto split: prod.splits sum.splits)
  note frame = search_loop_st_frame [OF loop]
  have "\<forall>r\<in>set rs. length (objects st) \<le> r \<and> r < length (objects st')
                  \<and> objects st' ! r \<in> set (catalog st)" if rs: "res = Inr rs" for rs
  proof -
    from rs res obtain m where m: "res0 = Inr m" and sl: "rs = slice_to m limit"
      by (auto split: sum.splits)
    from search_loop_st_fresh [OF loop [unfolded m]]
    have bounds: "\<forall>r\<in>set m. length (objects st) \<le> r \<and> r < length (objects st')"
      by auto
    have "search_loop kws loc (catalog st) [] = Inr (map (\<lambda>a. objects st' ! a) m)"
      using search_loop_st_values [OF refs_validD [OF valid], of "[]" kws loc] loop m
      by (simp add: catalog_def)
    then have "subseq (map (\<lambda>a. objects st' ! a) m) (catalog st)"
      by (rule search_loop_catalog)
    then have "set (map (\<lambda>a. objects st' ! a) m) \<subseteq> set (catalog st)"
      by (rule subseq_set)
    then have "\<forall>r\<in>set m. objects st' ! r \<in> set (catalog st)"
      by auto
    with bounds show ?thesis
      using set_slice_to [of m limit] sl by blast
  qed
  with frame show ?thesis
    by blast
qed


lemma get_job_by_id_st_values:
  "(case get_job_by_id_st st jid of
      (Inl e, st') \<Rightarrow> Inl e
    | (Inr None, st') \<Rightarrow> Inr None
    | (Inr (Some r), st') \<Rightarrow> Inr (Some (objects st' ! r)))
   = get_job_by_id \<lparr> sample_jobs = catalog st \<rparr> jid"
  using get_job_by_id_loop_st_values [of "sample_jobs_ref st" jid st]
  by (simp add: get_job_by_id_st_def get_job_by_id_def catalog_def)

lemma get_all_jobs_st_values:
  assumes "refs_valid st"
  shows "(case get_all_jobs_st st of (rs, st') \<Rightarrow> map (\<lambda>a. objects st' ! a) rs)
         = get_all_jobs \<lparr> sample_jobs = catalog st \<rparr>"
proof -
  let ?n = "length (objects st)" and ?as = "sample_jobs_ref st"
  have "map (\<lambda>a. (objects st @ map (\<lambda>a. objects st ! a) ?as) ! a) [?n ..< ?n + length ?as]
        = map (\<lambda>a. objects st ! a) ?as"
    by (rule nth_equalityI) (simp_all add: nth_append)
  then show ?thesis
    using copy_all_eq [OF refs_validD [OF assms]]
    by (simp add: get_all_jobs_st_def get_all_jobs_def catalog_def)
qed

text \<open>
  C10. On a store without dangling catalog references, \<open>search_jobs\<close>, \<open>get_job_by_id\<close> and
  \<open>get_all_jobs\<close> leave the list \<open>sample_jobs\<close> and the dictionaries it refers to as
  they were. Every reference they return is to an object that is not in the catalog and
  holds the items of a catalog dictionary, so assigning to the returned dictionary leaves
  the catalog unchanged.
\<close>

theorem queries_keep_catalog:
  assumes "refs_valid st"
  shows "(case search_jobs_st st keywords loc limit of
            (res, st') \<Rightarrow>
              sample_jobs_ref st' = sample_jobs_ref st \<and> catalog st' = catalog st
              \<and> (case res of Inl e \<Rightarrow> True
                 | Inr rs \<Rightarrow>
                     \<forall>r\<in>set rs. r \<notin> set (sample_jobs_ref st')
                       \<and> objects st' ! r \<in> set (catalog st)
                       \<and> (\<forall>j. catalog (dict_assign st' r j) = catalog st)))
         \<and> (case get_job_by_id_st st jid of
            (res, st') \<Rightarrow>
              sample_jobs_ref st' = sample_jobs_ref st \<and> catalog st' = catalog st
              \<and> (case res of Inl e \<Rightarrow> True | Inr None \<Rightarrow> True
                 | Inr (Some r) \<Rightarrow>
                     r \<notin> set (sample_jobs_ref st')
                       \<and> objects st' ! r \<in> set (catalog st)
                       \<and> (\<forall>j. catalog (dict_assign st' r j) = catalog st)))
         \<and> (case get_all_jobs_st st of
            (rs, st') \<Rightarrow>
              sample_jobs_ref st' = sample_jobs_ref st \<and> catalog st' = catalog st
              \<and> map (\<lambda>r. objects st' ! r) rs = catalog st
              \<and> (\<forall>r\<in>set rs. r \<notin> set (sample_jobs_ref st')
                    \<and> (\<forall>j. catalog (dict_assign st' r j) = catalog st)))"
proof (intro conjI)
  obtain res st' where run: "search_jobs_st st keywords loc limit = (res, st')"
    by (cases "search_jobs_st st keywords loc limit")
  note spec = search_jobs_st_spec [OF assms run]
  have "catalog st' = catalog st"
    using assms spec by (intro catalog_kept) simp_all
  moreover have "r \<notin> set (sample_jobs_ref st') \<and> objects st' ! r \<in> set (catalog st)
       \<and> (\<forall>j. catalog (dict_assign st' r j) = catalog st)"
    if "res = Inr rs" and "r \<in> set rs" for rs r
    using that spec assign_new_object [of st st' r] assms by blast
  ultimately show "case search_jobs_st st keywords loc limit of
            (res, st') \<Rightarrow>
              sample_jobs_ref st' = sample_jobs_ref st \<and> catalog st' = catalog st
              \<and> (case res of Inl e \<Rightarrow> True
                 | Inr rs \<Rightarrow>
                     \<forall>r\<in>set rs. r \<notin> set (sample_jobs_ref st')
                       \<and> objects st' ! r \<in> set (catalog st)
                       \<and> (\<forall>j. catalog (dict_assign st' r j) = catalog st))"
    using spec unfolding run by (simp split: sum.splits)
next
  obtain res st' where run: "get_job_by_id_loop_st (sample_jobs_ref st) jid st = (res, st')"
    by (cases "get_job_by_id_loop_st (sample_jobs_ref st) jid st")
  note frame = get_job_by_id_loop_st_frame [OF run]
  have kept: "catalog st' = catalog st"
    using assms frame by (intro catalog_kept) simp_all
  have "r \<notin> set (sample_jobs_ref st') \<and> objects st' ! r \<in> set (catalog st)
       \<and> (\<forall>j. catalog (dict_assign st' r j) = catalog st)"
    if "res = Inr (Some r)" for r
  proof -
    from get_job_by_id_loop_st_fresh [OF run [unfolded that]]
    have r: "r = length (objects st)" and "\<exists>a\<in>set (sample_jobs_ref st). objects st' ! r = objects st ! a"
      by blast+
    then have "objects st' ! r \<in> set (catalog st)"
      by (auto simp add: catalog_def)
    then show ?thesis
      using assign_new_object [of st st' r] assms frame r by simp
  qed
  then show "case get_job_by_id_st st jid of
            (res, st') \<Rightarrow>
              sample_jobs_ref st' = sample_jobs_ref st \<and> catalog st' = catalog st
              \<and> (case res of Inl e \<Rightarrow> True | Inr None \<Rightarrow> True
                 | Inr (Some r) \<Rightarrow>
                     r \<notin> set (sample_jobs_ref st')
                       \<and> objects st' ! r \<in> set (catalog st)
                       \<and> (\<forall>j. catalog (dict_assign st' r j) = catalog st))"
    using frame kept unfolding get_job_by_id_st_def run
    by (simp split: sum.splits option.splits)
next
  let ?n = "length (objects st)" and ?as = "sample_jobs_ref st"
  define st' where "st' = st\<lparr> objects := objects st @ map (\<lambda>a. objects st ! a) ?as \<rparr>"
  have run: "get_all_jobs_st st = ([?n ..< ?n + length ?as], st')"
    using copy_all_eq [OF refs_validD [OF assms]] by (simp add: get_all_jobs_st_def st'_def)
  have refs: "sample_jobs_ref st' = sample_jobs_ref st" and pre: "prefix (objects st) (objects st')"
    by (simp_all add: st'_def)
  have kept: "catalog st' = catalog st"
    using assms refs pre by (rule catalog_kept)
  have vals: "map (\<lambda>r. objects st' ! r) [?n ..< ?n + length ?as] = catalog st"
    using get_all_jobs_st_values [OF assms] unfolding run
    by (simp add: get_all_jobs_def)
  have "r \<notin> set (sample_jobs_ref st') \<and> (\<forall>j. catalog (dict_assign st' r j) = catalog st)"
    if "r \<in> set [?n ..< ?n + length ?as]" for r
    using that assign_new_object [OF assms refs pre, of r] by simp
  then show "case get_all_jobs_st st of
            (rs, st') \<Rightarrow>
              sample_jobs_ref st' = sample_jobs_ref st \<and> catalog st' = catalog st
              \<and> map (\<lambda>r. objects st' ! r) rs = catalog st
              \<and> (\<forall>r\<in>set rs. r \<notin> set (sample_jobs_ref st')
                    \<and> (\<forall>j. catalog (dict_assign st' r j) = catalog st))"
    using refs kept vals unfolding run by simp
qed


theorem queries_keep_catalog_witness:
  "refs_valid JobScraper_init_store
   \<and> fst (search_jobs_st JobScraper_init_store ''python'' ''remote'' 5) = Inr [8, 9]
   \<and> catalog (dict_assign (snd (search_jobs_st JobScraper_init_store ''python'' ''remote'' 5))
        9 (job_003\<lparr>title := Some ''Changed''\<rparr>)) = catalog JobScraper_init_store
   \<and> fst (get_job_by_id_st JobScraper_init_store ''job_003'') = Inr (Some 8)
   \<and> catalog (dict_assign (snd (get_job_by_id_st JobScraper_init_store ''job_003''))
        8 (job_003\<lparr>title := Some ''Changed''\<rparr>)) = catalog JobScraper_init_store
   \<and> fst (get_all_jobs_st JobScraper_init_store) = [8, 9, 10, 11, 12, 13, 14, 15]
   \<and> catalog (dict_assign (snd (get_all_jobs_st JobScraper_init_store))
        15 (job_008\<lparr>title := Some ''Changed''\<rparr>)) = catalog JobScraper_init_store"
proof -
  have h: "refs_valid JobScraper_init_store"
    by code_simp
  have r1: "fst (search_jobs_st JobScraper_init_store ''python'' ''remote'' 5) = Inr [8, 9]"
    by code_simp
  have r2: "fst (get_job_by_id_st JobScraper_init_store ''job_003'') = Inr (Some 8)"
    by code_simp
  have r3: "fst (get_all_jobs_st JobScraper_init_store) = [8, 9, 10, 11, 12, 13, 14, 15]"
    by code_simp
  from queries_keep_catalog [OF h, of "''python''" "''remote''" 5 "''job_003''"] r1 r2 r3
  have "catalog (dict_assign (snd (search_jobs_st JobScraper_init_store ''python'' ''remote'' 5))
        9 (job_003\<lparr>title := Some ''Changed''\<rparr>)) = catalog JobScraper_init_store"
    and "catalog (dict_assign (snd (get_job_by_id_st JobScraper_init_store ''job_003''))
        8 (job_003\<lparr>title := Some ''Changed''\<rparr>)) = catalog JobScraper_init_store"
    and "catalog (dict_assign (snd (get_all_jobs_st JobScraper_init_store))
        15 (job_008\<lparr>title := Some ''Changed''\<rparr>)) = catalog JobScraper_init_store"
    by (simp_all add: case_prod_unfold)
  with h r1 r2 r3 show ?thesis
    by blast
qed

section \<open>Properties of the resume customizer\<close>

lemma customize_for_job_resume_only:
  "sample_resume c1 = sample_resume c2 \<Longrightarrow> customize_for_job c1 job = customize_for_job c2 job"
  by (simp add: customize_for_job_def)

lemma batch_customize_resume_only:
  "sample_resume c1 = sample_resume c2 \<Longrightarrow> batch_customize c1 jobs = batch_customize c2 jobs"
  by (induction jobs) (simp_all add: customize_for_job_resume_only [of c1 c2] split: sum.splits)

lemma get_matching_skills_filter:
  "get_matching_skills resume_skills job_skills
     = filter (\<lambda>s. lower s \<in> lower ` set job_skills) resume_skills"
  by (auto simp add: get_matching_skills_def intro: filter_cong)

lemma prioritized_partition:
  "filter P xs @ filter (\<lambda>s. s \<notin> set (filter P xs)) xs = filter P xs @ filter (\<lambda>s. \<not> P s) xs"
  by (auto intro: filter_cong)

lemma slice_to_short: "int (length xs) \<le> n \<Longrightarrow> slice_to xs n = xs"
  by (simp add: slice_to_def)

lemma customize_for_job_init_skills:
  "\<exists>r. customize_for_job (ResumeCustomizer_init m v) job = Inr r
     \<and> skills r = Some (slice_to
          (get_matching_skills [''Python'', ''Java'', ''Docker'', ''Kubernetes'', ''AWS'',
              ''Machine Learning'', ''PostgreSQL'', ''REST API'', ''Git'']
              (dict_get (requirements job) [])
           @ filter (\<lambda>s. s \<notin> set (get_matching_skills [''Python'', ''Java'', ''Docker'', ''Kubernetes'', ''AWS'',
              ''Machine Learning'', ''PostgreSQL'', ''REST API'', ''Git'']
              (dict_get (requirements job) [])))
              [''Python'', ''Java'', ''Docker'', ''Kubernetes'', ''AWS'',
              ''Machine Learning'', ''PostgreSQL'', ''REST API'', ''Git'']) 10)
     \<and> summary r = Some (generate_custom_summary (sample_resume (ResumeCustomizer_init m v))
           (dict_get (title job) '''') (dict_get (company job) '''')
           (get_matching_skills [''Python'', ''Java'', ''Docker'', ''Kubernetes'', ''AWS'',
              ''Machine Learning'', ''PostgreSQL'', ''REST API'', ''Git'']
              (dict_get (requirements job) [])))"
  by (simp add: customize_for_job_def ResumeCustomizer_init_def dict_item_def raise_or_def Let_def)


lemma generate_cover_letter_resume_only:
  "generate_cover_letter c1 job r = generate_cover_letter c2 job r"
  by (simp add: generate_cover_letter_def)

text \<open>
  C3. The customizers built from any two pairs of a model and a vocabulary, of whatever
  types, give the same results from \<open>customize_for_job\<close>, \<open>generate_cover_letter\<close> and
  \<open>batch_customize\<close> on every input.
\<close>

theorem model_never_influences:
  "customize_for_job (ResumeCustomizer_init m1 v1) job
     = customize_for_job (ResumeCustomizer_init m2 v2) job
   \<and> generate_cover_letter (ResumeCustomizer_init m1 v1) job r
     = generate_cover_letter (ResumeCustomizer_init m2 v2) job r
   \<and> batch_customize (ResumeCustomizer_init m1 v1) jobs
     = batch_customize (ResumeCustomizer_init m2 v2) jobs"
proof -
  have same: "sample_resume (ResumeCustomizer_init m1 v1) = sample_resume (ResumeCustomizer_init m2 v2)"
    by (simp add: ResumeCustomizer_init_def)
  show ?thesis
    using customize_for_job_resume_only [OF same] batch_customize_resume_only [OF same]
      generate_cover_letter_resume_only [of "ResumeCustomizer_init m1 v1" job r "ResumeCustomizer_init m2 v2"]
    by simp
qed

text \<open>
  C4. For every job, \<open>customize_for_job\<close> on a newly built customizer returns a resume
  whose skills are the nine sample skills reordered: first those whose lowercased form is
  a lowercased requirement of the job, in resume order, then the others, in resume order.
  Nothing is added or removed, and the cut to ten entries removes nothing.
\<close>

theorem customize_skills_reordered:
  "\<exists>r ss. customize_for_job (ResumeCustomizer_init m v) job = Inr r
     \<and> skills r = Some ss
     \<and> ss = filter (\<lambda>s. lower s \<in> lower ` set (dict_get (requirements job) []))
               [''Python'', ''Java'', ''Docker'', ''Kubernetes'', ''AWS'',
                ''Machine Learning'', ''PostgreSQL'', ''REST API'', ''Git'']
           @ filter (\<lambda>s. lower s \<notin> lower ` set (dict_get (requirements job) []))
               [''Python'', ''Java'', ''Docker'', ''Kubernetes'', ''AWS'',
                ''Machine Learning'', ''PostgreSQL'', ''REST API'', ''Git'']
     \<and> mset ss = mset [''Python'', ''Java'', ''Docker'', ''Kubernetes'', ''AWS'',
                ''Machine Learning'', ''PostgreSQL'', ''REST API'', ''Git'']
     \<and> length ss \<le> 10"
proof -
  let ?L = "[''Python'', ''Java'', ''Docker'', ''Kubernetes'', ''AWS'',
                ''Machine Learning'', ''PostgreSQL'', ''REST API'', ''Git'']"
  let ?P = "\<lambda>s. lower s \<in> lower ` set (dict_get (requirements job) [])"
  let ?ss = "filter ?P ?L @ filter (\<lambda>s. \<not> ?P s) ?L"
  from customize_for_job_init_skills [of m v job]
  obtain r where r: "customize_for_job (ResumeCustomizer_init m v) job = Inr r"
    and sk: "skills r = Some (slice_to
          (get_matching_skills ?L (dict_get (requirements job) [])
           @ filter (\<lambda>s. s \<notin> set (get_matching_skills ?L (dict_get (requirements job) []))) ?L) 10)"
    by blast
  have m: "mset ?ss = mset ?L"
    by (simp only: mset_append multiset_partition [symmetric] mset_filter)
  then have "length ?ss = length ?L"
    by (rule mset_eq_length)
  then have len: "length ?ss = 9"
    by simp
  have "skills r = Some (slice_to ?ss 10)"
    using sk by (simp only: get_matching_skills_filter prioritized_partition)
  also have "slice_to ?ss 10 = ?ss"
    using len by (intro slice_to_short) simp
  finally have "skills r = Some ?ss" .
  with r m len show ?thesis
    by simp
qed


lemma str_int_6: "str_int 6 = ''6''"
  by code_simp

lemma generate_custom_summary_template:
  "experience r = Some e \<Longrightarrow>
   generate_custom_summary r t c ms =
     ''Experienced software engineer with '' @ str_int e
     @ ''+ years of expertise specializing in '' @ join '', '' (take 5 ms)
     @ ''. Proven track record in building scalable systems and delivering high-impact solutions. Passionate about leveraging technology to solve complex problems.''"
  by (simp add: generate_custom_summary_def dict_get_def slice_to_def)

text \<open>
  C5. For every job, the summary of the resume returned by \<open>customize_for_job\<close> on a newly
  built customizer is the fixed template, filled with the experience value 6 of the sample
  resume and with the first five matching skills joined by a comma and a blank.
\<close>

theorem customize_summary_template:
  "\<exists>r. customize_for_job (ResumeCustomizer_init m v) job = Inr r
     \<and> experience (sample_resume (ResumeCustomizer_init m v)) = Some 6
     \<and> str_int 6 = ''6''
     \<and> summary r = Some (
         ''Experienced software engineer with '' @ str_int 6
         @ ''+ years of expertise specializing in ''
         @ join '', '' (take 5
             (filter (\<lambda>s. lower s \<in> lower ` set (dict_get (requirements job) []))
                [''Python'', ''Java'', ''Docker'', ''Kubernetes'', ''AWS'',
                 ''Machine Learning'', ''PostgreSQL'', ''REST API'', ''Git'']))
         @ ''. Proven track record in building scalable systems and delivering high-impact solutions. Passionate about leveraging technology to solve complex problems.'')"
proof -
  let ?L = "[''Python'', ''Java'', ''Docker'', ''Kubernetes'', ''AWS'',
                ''Machine Learning'', ''PostgreSQL'', ''REST API'', ''Git'']"
  from customize_for_job_init_skills [of m v job]
  obtain r where r: "customize_for_job (ResumeCustomizer_init m v) job = Inr r"
    and su: "summary r = Some (generate_custom_summary (sample_resume (ResumeCustomizer_init m v))
           (dict_get (title job) []) (dict_get (company job) [])
           (get_matching_skills ?L (dict_get (requirements job) [])))"
    by blast
  have e: "experience (sample_resume (ResumeCustomizer_init m v)) = Some 6"
    by (simp add: ResumeCustomizer_init_def)
  have "summary r = Some (
         ''Experienced software engineer with '' @ str_int 6
         @ ''+ years of expertise specializing in ''
         @ join '', '' (take 5
             (filter (\<lambda>s. lower s \<in> lower ` set (dict_get (requirements job) [])) ?L))
         @ ''. Proven track record in building scalable systems and delivering high-impact solutions. Passionate about leveraging technology to solve complex problems.'')"
    by (simp only: su generate_custom_summary_template [OF e] get_matching_skills_filter)
  with r e str_int_6 show ?thesis
    by blast
qed

section \<open>Properties of the workflow\<close>

lemma applications_loop_scores:
  assumes "applications_loop c rs minr jobs apps = Inr out"
    and "\<forall>a\<in>set apps. minr \<le> relevance_score a"
  shows "\<forall>a\<in>set out. minr \<le> relevance_score a"
  using assms
proof (induction jobs arbitrary: apps)
  case Nil
  then show ?case by simp
next
  case (Cons job rest)
  show ?case
  proof (cases "minr \<le> classify_job job rs")
    case False
    then show ?thesis
      using Cons.prems Cons.IH [of apps] by (simp add: Let_def)
  next
    case True
    then obtain customized where cu: "customize_for_job c job = Inr customized"
      using Cons.prems(1) by (cases "customize_for_job c job") (simp_all add: Let_def raise_or_def)
    define app where "app = \<lparr>
         app_job = job,
         relevance_score = classify_job job rs,
         match_details = get_match_details job rs,
         customized_resume = customized,
         cover_letter = generate_cover_letter c job customized,
         application_status = ''Ready to Apply'',
         recommended_action = md_recommendation (get_match_details job rs) \<rparr>"
    have run: "applications_loop c rs minr rest (apps @ [app]) = Inr out"
      using True cu Cons.prems(1) by (simp add: Let_def raise_or_def app_def)
    have "relevance_score app = classify_job job rs"
      by (simp add: app_def)
    then have "\<forall>a\<in>set (apps @ [app]). minr \<le> relevance_score a"
      using True Cons.prems(2) by simp
    with run show ?thesis
      by (rule Cons.IH)
  qed
qed

lemma applications_loop_returns:
  assumes "\<And>job. \<exists>r. customize_for_job c job = Inr r"
  shows "\<exists>out. applications_loop c rs minr jobs apps = Inr out"
proof (induction jobs arbitrary: apps)
  case Nil
  then show ?case by simp
next
  case (Cons job rest)
  obtain r where "customize_for_job c job = Inr r"
    using assms by blast
  then show ?case
    using Cons.IH by (simp add: Let_def raise_or_def)
qed

lemma sorted_descending:
  fixes f :: "'a \<Rightarrow> rat"
  shows "sorted_wrt (\<ge>) (map f (sort_key (\<lambda>x. - f x) xs))"
proof -
  have "sorted (map (\<lambda>x. - f x) (sort_key (\<lambda>x. - f x) xs))"
    by (rule sorted_sort_key)
  then show ?thesis
    by (simp add: sorted_wrt_map)
qed

lemma relevant_loop_scores:
  "\<forall>(job, score)\<in>set (relevant_loop jobs rs threshold). threshold \<le> score"
  by (induction jobs) (simp_all add: Let_def)

lemma run_workflow_applications:
  assumes "fst (run_workflow self keywords loc num_jobs min_relevance) = Inr result"
  shows "applications result = []
         \<or> (\<exists>jobs resume_skills apps.
               applications_loop (agent_customizer self) resume_skills min_relevance jobs []
                 = Inr apps
               \<and> applications result = sort_key (\<lambda>a. - relevance_score a) apps)"
proof -
  have "applications result = []" if "search_jobs (agent_scraper self) keywords loc num_jobs = Inr []"
    using that assms by (auto simp add: run_workflow_def)
  moreover have "\<exists>apps.
               applications_loop (agent_customizer self) rs min_relevance jobs [] = Inr apps
               \<and> applications result = sort_key (\<lambda>a. - relevance_score a) apps"
    if "search_jobs (agent_scraper self) keywords loc num_jobs = Inr jobs" and "jobs \<noteq> []"
      and "dict_item ''skills'' (skills (get_sample_resume (agent_customizer self))) = Inr rs"
    for jobs rs
    using that assms
    by (cases "applications_loop (agent_customizer self) rs min_relevance jobs []")
      (auto simp add: run_workflow_def Let_def)
  moreover have "\<exists>jobs. search_jobs (agent_scraper self) keywords loc num_jobs = Inr jobs"
    using assms
    by (cases "search_jobs (agent_scraper self) keywords loc num_jobs")
      (simp_all add: run_workflow_def)
  moreover have "\<exists>rs. dict_item ''skills'' (skills (get_sample_resume (agent_customizer self))) = Inr rs"
    if "search_jobs (agent_scraper self) keywords loc num_jobs = Inr jobs" and "jobs \<noteq> []"
    for jobs
    using that assms
    by (cases "dict_item ''skills'' (skills (get_sample_resume (agent_customizer self)))")
      (simp_all add: run_workflow_def)
  ultimately show ?thesis
    by blast
qed

lemma run_workflow_returns:
  "\<exists>result. fst (run_workflow
       (JobApplicationAgent_init JobScraper_init (ResumeCustomizer_init m v))
       keywords loc num_jobs min_relevance) = Inr result"
proof -
  let ?c = "ResumeCustomizer_init m v"
  let ?kws = "if keywords \<noteq> [] then split (lower keywords) else []"
  let ?cat = "[job_001, job_002, job_003, job_004, job_005, job_006, job_007, job_008]"
  from search_loop_returns [OF catalog_keys]
  obtain found where "search_loop ?kws loc ?cat [] = Inr found"
    by blast
  then have search: "search_jobs JobScraper_init keywords loc num_jobs
      = Inr (slice_to found num_jobs)"
    by (simp add: search_jobs_def JobScraper_init_def)
  have "\<And>job. \<exists>r. customize_for_job ?c job = Inr r"
    using customize_for_job_init_skills [of m v] by blast
  from applications_loop_returns [OF this]
  have loop: "\<And>rs jobs. \<exists>out. applications_loop ?c rs min_relevance jobs [] = Inr out"
    by blast
  obtain rs where rs: "dict_item ''skills'' (skills (get_sample_resume ?c)) = Inr rs"
    by (simp add: get_sample_resume_def ResumeCustomizer_init_def dict_item_def)
  obtain out where "applications_loop ?c rs min_relevance (slice_to found num_jobs) [] = Inr out"
    using loop by blast
  then show ?thesis
    using search rs
    by (simp add: run_workflow_def JobApplicationAgent_init_def Let_def)
qed

text \<open>
  C8. Every application in the result of \<open>run_workflow\<close> has a relevance score of at
  least \<open>min_relevance\<close>, and the applications are in non-increasing order of their scores;
  \<open>filter_relevant_jobs\<close> has both properties for its threshold.
\<close>

theorem applications_relevant_and_ranked:
  "(fst (run_workflow self keywords loc num_jobs min_relevance) = Inr result \<longrightarrow>
      (\<forall>a\<in>set (applications result). min_relevance \<le> relevance_score a)
      \<and> sorted_wrt (\<ge>) (map relevance_score (applications result)))
   \<and> (\<forall>(job, score)\<in>set (filter_relevant_jobs jobs resume_skills threshold).
         threshold \<le> score)
   \<and> sorted_wrt (\<ge>) (map snd (filter_relevant_jobs jobs resume_skills threshold))"
proof (intro conjI impI)
  assume run: "fst (run_workflow self keywords loc num_jobs min_relevance) = Inr result"
  from run_workflow_applications [OF run]
  consider "applications result = []"
    | js rs apps where
        "applications_loop (agent_customizer self) rs min_relevance js [] = Inr apps"
        "applications result = sort_key (\<lambda>a. - relevance_score a) apps"
    by blast
  then have "(\<forall>a\<in>set (applications result). min_relevance \<le> relevance_score a)
      \<and> sorted_wrt (\<ge>) (map relevance_score (applications result))"
  proof cases
    case 1
    then show ?thesis by simp
  next
    case 2
    from applications_loop_scores [OF 2(1)]
    have "\<forall>a\<in>set apps. min_relevance \<le> relevance_score a"
      by simp
    then show ?thesis
      using sorted_descending [of relevance_score apps] by (simp add: 2(2))
  qed
  then show "\<forall>a\<in>set (applications result). min_relevance \<le> relevance_score a"
    and "sorted_wrt (\<ge>) (map relevance_score (applications result))"
    by blast+
next
  show "\<forall>(job, score)\<in>set (filter_relevant_jobs jobs resume_skills threshold).
         threshold \<le> score"
    using relevant_loop_scores [of jobs resume_skills threshold]
    by (simp add: filter_relevant_jobs_def)
next
  show "sorted_wrt (\<ge>) (map snd (filter_relevant_jobs jobs resume_skills threshold))"
    unfolding filter_relevant_jobs_def by (rule sorted_descending)
qed

theorem applications_relevant_and_ranked_witness:
  "\<exists>result.
     fst (run_workflow (JobApplicationAgent_init JobScraper_init (ResumeCustomizer_init () ()))
            ''kubernetes'' [] 5 (11 / 20)) = Inr result
     \<and> map (\<lambda>a. (app_job a, relevance_score a)) (applications result)
         = [(job_007, 2 / 3), (job_004, 4 / 7)]
     \<and> (\<forall>a\<in>set (applications result). 11 / 20 \<le> relevance_score a)
     \<and> sorted_wrt (\<ge>) (map relevance_score (applications result))"
proof -
  let ?c = "ResumeCustomizer_init () () :: (unit, unit) customizer"
  let ?L = "[''Python'', ''Java'', ''Docker'', ''Kubernetes'', ''AWS'',
             ''Machine Learning'', ''PostgreSQL'', ''REST API'', ''Git'']"
  let ?run = "fst (run_workflow (JobApplicationAgent_init JobScraper_init ?c)
      ''kubernetes'' [] 5 (11 / 20))"
  have search: "search_jobs JobScraper_init ''kubernetes'' [] 5 = Inr [job_004, job_007, job_008]"
    by code_simp
  have sk: "dict_item ''skills'' (skills (get_sample_resume ?c)) = Inr ?L"
    by (simp add: get_sample_resume_def ResumeCustomizer_init_def dict_item_def)
  have c4: "classify_job job_004 ?L = 4 / 7"
    by code_simp
  have c7: "classify_job job_007 ?L = 2 / 3"
    by code_simp
  have c8: "classify_job job_008 ?L = 1 / 2"
    by code_simp
  obtain r4 where r4: "customize_for_job ?c job_004 = Inr r4"
    using customize_for_job_init_skills [of "()" "()" job_004] by blast
  obtain r7 where r7: "customize_for_job ?c job_007 = Inr r7"
    using customize_for_job_init_skills [of "()" "()" job_007] by blast
  have ne: "[job_004, job_007, job_008] \<noteq> []"
    by simp
  obtain result where run: "?run = Inr result"
    using run_workflow_returns [of "()" "()" "''kubernetes''" "[]" 5 "11 / 20"] by blast
  have pairs: "map (\<lambda>a. (app_job a, relevance_score a)) (applications result)
         = [(job_007, 2 / 3), (job_004, 4 / 7)]"
    using run
    by (auto simp add: run_workflow_def JobApplicationAgent_init_def search sk c4 c7 c8 r4 r7
          raise_or_def Let_def simp del: list.simps(3) not_Cons_self2)
  from applications_relevant_and_ranked
    [of "JobApplicationAgent_init JobScraper_init ?c" "''kubernetes''" "[]" 5 "11 / 20" result]
    run
  have ranked: "(\<forall>a\<in>set (applications result). 11 / 20 \<le> relevance_score a)
      \<and> sorted_wrt (\<ge>) (map relevance_score (applications result))"
    by blast
  note r1 = conjunct1 [OF ranked] and r2 = conjunct2 [OF ranked]
  show ?thesis
    by (intro exI [of _ result] conjI) (rule run pairs r1 r2)+
qed

section \<open>Properties of the transformer block\<close>

text \<open>
  C6. The forward pass of the transformer block is post-norm: with \<open>y\<close> the first layer
  normalization of the input plus the dropout of the self-attention output, the result is
  the second layer normalization of \<open>y\<close> plus the feed-forward output on \<open>y\<close>. The state of
  the random generator passes through attention, dropout and feed-forward stack in this
  order.
\<close>

theorem forward_post_norm:
  fixes self :: "('t::plus, 'k, 'g) MAYINITransformerBlock"
  shows "MAYINITransformerBlock_forward self g x key_padding_mask =
     (let a = attention self g x x x key_padding_mask;
          d = dropout self (snd a) (fst (fst a));
          y = norm1 self (x + fst d);
          f = feed_forward self (snd d) y
      in (norm2 self (y + fst f), snd f))"
  by (simp add: MAYINITransformerBlock_forward_def Let_def split: prod.splits)

text \<open>A block over the integers on which the post-norm forward pass and the pre-norm
  arrangement differ: normalization doubles, attention returns its query, the
  feed-forward stack and the dropout return their input.\<close>

lemma forward_not_pre_norm_example:
  "MAYINITransformerBlock_forward
     \<lparr> attention = (\<lambda>g q k v m. ((q, 0), g)), feed_forward = (\<lambda>g t. (t, g)),
       norm1 = (\<lambda>t. 2 * t), norm2 = (\<lambda>t. 2 * t), dropout = (\<lambda>g t. (t, g)) \<rparr>
     () (1 :: int) (None :: unit option) = (16, ())
   \<and> pre_norm_forward
     \<lparr> attention = (\<lambda>g q k v m. ((q, 0), g)), feed_forward = (\<lambda>g t. (t, g)),
       norm1 = (\<lambda>t. 2 * t), norm2 = (\<lambda>t. 2 * t), dropout = (\<lambda>g t. (t, g)) \<rparr>
     () (1 :: int) (None :: unit option) = (9, ())"
  by (simp add: MAYINITransformerBlock_forward_def pre_norm_forward_def)

end
